theory Spec2Isabelle
  imports Main
begin

section \<open>JavaScript values\<close>

text \<open>
  Configuration fields and health-cache fields are strings that may be absent:
  \<open>None\<close> is JavaScript's \<open>undefined\<close>. Strings are lists of 8-bit characters
  (the command templates of the program are ASCII).
\<close>

definition truthy :: "string option \<Rightarrow> bool" where
  \<comment> \<open>the test \<open>if (x)\<close> on a string or \<open>undefined\<close>\<close>
  "truthy v = (case v of None \<Rightarrow> False | Some s \<Rightarrow> s \<noteq> [])"

definition nullish :: "'a option \<Rightarrow> 'a \<Rightarrow> 'a" where
  \<comment> \<open>\<open>x ?? d\<close>\<close>
  "nullish v d = (case v of None \<Rightarrow> d | Some a \<Rightarrow> a)"

definition orElse :: "string option \<Rightarrow> string \<Rightarrow> string" where
  \<comment> \<open>\<open>x || d\<close> on a string or \<open>undefined\<close>\<close>
  "orElse v d = (case v of None \<Rightarrow> d | Some s \<Rightarrow> if s = [] then d else s)"

definition String :: "string option \<Rightarrow> string" where
  \<comment> \<open>\<open>String(value)\<close>\<close>
  "String v = (case v of None \<Rightarrow> ''undefined'' | Some s \<Rightarrow> s)"

definition startsWith :: "string \<Rightarrow> string \<Rightarrow> bool" where
  "startsWith s p = (take (length p) s = p)"

fun includesStr :: "string \<Rightarrow> string \<Rightarrow> bool" where
  \<comment> \<open>\<open>s.includes(p)\<close>\<close>
  "includesStr [] p = (p = [])"
| "includesStr (c # cs) p = (startsWith (c # cs) p \<or> includesStr cs p)"

definition isSpace :: "char \<Rightarrow> bool" where
  "isSpace c = (c \<in> {CHR '' '', CHR 0x09, CHR 0x0A, CHR 0x0B, CHR 0x0C, CHR 0x0D})"

definition trim :: "string \<Rightarrow> string" where
  "trim s = rev (dropWhile isSpace (rev (dropWhile isSpace s)))"

fun splitOn :: "char \<Rightarrow> string \<Rightarrow> string list" where
  \<comment> \<open>\<open>s.split(c)\<close> for a one-character separator\<close>
  "splitOn sep [] = [[]]"
| "splitOn sep (c # cs) =
     (if c = sep then [] # splitOn sep cs
      else (case splitOn sep cs of [] \<Rightarrow> [[c]] | l # ls \<Rightarrow> (c # l) # ls))"

fun joinWith :: "string \<Rightarrow> string list \<Rightarrow> string" where
  \<comment> \<open>\<open>xs.join(sep)\<close>\<close>
  "joinWith sep [] = []"
| "joinWith sep [x] = x"
| "joinWith sep (x # y # ys) = x @ sep @ joinWith sep (y # ys)"

section \<open>String.prototype.replaceAll with a string pattern\<close>

text \<open>
  \<open>getSubstitution\<close> expands the replacement text of one match: \<open>$$\<close> is a dollar
  sign, \<open>$&\<close> the matched text, \<open>$`\<close> the text before the match and \<open>$'\<close> the
  text after it; a string pattern has no captures, so any other \<open>$\<close> stays as it is.
\<close>

fun getSubstitution :: "string \<Rightarrow> string \<Rightarrow> string \<Rightarrow> string \<Rightarrow> string" where
  "getSubstitution m b a [] = []"
| "getSubstitution m b a [c] = [c]"
| "getSubstitution m b a (c # d # ds) =
     (if c = CHR ''$'' \<and> d = CHR ''$'' then CHR ''$'' # getSubstitution m b a ds
      else if c = CHR ''$'' \<and> d = CHR ''&'' then m @ getSubstitution m b a ds
      else if c = CHR ''$'' \<and> d = CHR 0x60 then b @ getSubstitution m b a ds
      else if c = CHR ''$'' \<and> d = CHR 0x27 then a @ getSubstitution m b a ds
      else c # getSubstitution m b a (d # ds))"

text \<open>
  The scan of \<open>replaceAll\<close> for a non-empty pattern: matches are found left to right and
  do not overlap; \<open>before\<close> is the part of the original string already passed.
\<close>

lemma startsWith_drop_shorter:
  "pat \<noteq> [] \<Longrightarrow> startsWith s pat \<Longrightarrow> length (drop (length pat) s) < length s"
  by (cases s) (auto simp: startsWith_def)

function replaceScan :: "string \<Rightarrow> string \<Rightarrow> string \<Rightarrow> string \<Rightarrow> string" where
  "replaceScan pat rep before s =
     (if pat \<noteq> [] \<and> startsWith s pat
      then getSubstitution pat before (drop (length pat) s) rep
             @ replaceScan pat rep (before @ pat) (drop (length pat) s)
      else (case s of [] \<Rightarrow> [] | c # cs \<Rightarrow> c # replaceScan pat rep (before @ [c]) cs))"
  by pat_completeness auto
termination
  by (relation "measure (\<lambda>(pat, rep, before, s). length s)")
     (use startsWith_drop_shorter in auto)

declare replaceScan.simps [simp del]

fun replaceEmpty :: "string \<Rightarrow> string \<Rightarrow> string \<Rightarrow> string" where
  \<comment> \<open>the empty pattern matches before every character and at the end\<close>
  "replaceEmpty rep before [] = getSubstitution [] before [] rep"
| "replaceEmpty rep before (c # cs) =
     getSubstitution [] before (c # cs) rep @ c # replaceEmpty rep (before @ [c]) cs"

definition replaceAll :: "string \<Rightarrow> string \<Rightarrow> string \<Rightarrow> string" where
  \<comment> \<open>\<open>s.replaceAll(pat, rep)\<close>\<close>
  "replaceAll s pat rep =
     (if pat = [] then replaceEmpty rep [] s else replaceScan pat rep [] s)"

section \<open>Errors, results of commands, events\<close>

datatype error =
    Error string          \<comment> \<open>\<open>new Error(message)\<close>\<close>
  | TypeError string      \<comment> \<open>a property read or a method call on \<open>undefined\<close>\<close>
  | SyntaxError string    \<comment> \<open>thrown by \<open>JSON.parse\<close>\<close>
  | ENOENT string         \<comment> \<open>a file operation on a path that does not exist\<close>

record exec_result =
  code :: "int option"    \<comment> \<open>\<open>None\<close> is \<open>null\<close>: the child was ended by a signal\<close>
  stdout :: string
  stderr :: string

datatype role = Send | Check | Probe | Restart | Notify | Git

datatype event =
    Exec role string string exec_result
      \<comment> \<open>the call site of \<open>execShell\<close>, the working directory, the command, its result\<close>
  | Sleep int              \<comment> \<open>\<open>sleep(ms)\<close>\<close>
  | SetInterval int        \<comment> \<open>\<open>setInterval(tick, ms)\<close>\<close>
  | LogInfo string
  | LogWarn string
  | LogError string

section \<open>The configuration object\<close>

text \<open>
  The object read from \<open>warden.config.json\<close>. Every key may be missing; a missing
  object is \<open>None\<close>. Booleans are the values after \<open>Boolean(...)\<close> (a missing flag is
  \<open>False\<close>), numbers are integers.
\<close>

record paths_cfg =
  repoConfig :: "string option"
  liveConfig :: "string option"
  schemaFile :: "string option"

record agent_probe =
  enabled :: bool
  fallbackAgentId :: "string option"
  command :: "string option"

record heartbeat_cfg =
  intervalMinutes :: "int option"
  waitSeconds :: "int list option"    \<comment> \<open>\<open>None\<close>: not an array\<close>
  checkCommand :: "string option"
  sendCommand :: "string option"
  restartCommand :: "string option"
  notifyCommand :: "string option"
  notifyOnRestart :: bool
  agentProbe :: "agent_probe option"
  target :: "string option"

record git_cfg =
  git_enabled :: bool
  autoInit :: bool

record config =
  configPath :: "string option"       \<comment> \<open>\<open>__configPath\<close>\<close>
  paths :: "paths_cfg option"
  git :: "git_cfg option"
  heartbeat :: "heartbeat_cfg option"

definition emptyHeartbeat :: heartbeat_cfg where
  \<comment> \<open>the object \<open>{}\<close> of \<open>config.heartbeat || {}\<close>\<close>
  "emptyHeartbeat =
     \<lparr>intervalMinutes = None, waitSeconds = None, checkCommand = None, sendCommand = None,
      restartCommand = None, notifyCommand = None, notifyOnRestart = False,
      agentProbe = None, target = None\<rparr>"

record health_cache =
  \<comment> \<open>the fields of \<open>health.json\<close> that command templates use\<close>
  agentId :: "string option"
  sessionId :: "string option"
  sessionKey :: "string option"

section \<open>The world and the runtime\<close>

text \<open>
  The world holds the files (content by absolute path), the directories, the clock of
  \<open>Date.now()\<close> and, in \<open>extern\<close>, everything else a subprocess can see or change
  (the gateway, the git object store). Log lines are events, not files.
\<close>

record 'x world =
  files :: "string \<Rightarrow> string option"
  dirs :: "string set"
  now :: nat
  extern :: 'x

record ajv_error =
  instancePath :: string
  schemaPath :: string
  message :: "string option"

record ajv_outcome =
  ok :: bool
  errors :: "ajv_error list option"     \<comment> \<open>\<open>validate.errors\<close>, \<open>None\<close> is \<open>null\<close>\<close>

text \<open>
  What the program takes from Node and from the programs it starts. \<open>spawnShell cwd
  command\<close> is \<open>spawn(command, {shell: true, cwd})\<close> run until the child closes
  (every command yields a result: a command that Node refuses to start is not modelled);
  \<open>elapse ms\<close> is what the rest of the system does while a timer of \<open>ms\<close>
  milliseconds runs. \<open>jsonParse\<close> is \<open>JSON.parse\<close> (\<open>Inl\<close> the message of its
  SyntaxError), \<open>parseHealthCache\<close> is \<open>JSON.parse\<close> read at the three fields of
  the health cache (\<open>None\<close> when it throws), \<open>ajvCompile\<close> is \<open>ajv.compile\<close> of
  the Ajv instance the program builds.
\<close>

record ('x, 'j) runtime =
  spawnShell :: "string \<Rightarrow> string \<Rightarrow> 'x world \<Rightarrow> exec_result \<times> 'x world"
  elapse :: "int \<Rightarrow> 'x world \<Rightarrow> 'x world"
  CWD :: string
  homedir :: string
  tmpdir :: string
  path_join :: "string list \<Rightarrow> string"
  path_dirname :: "string \<Rightarrow> string"
  path_basename :: "string \<Rightarrow> string"
  path_isAbsolute :: "string \<Rightarrow> bool"
  path_resolve :: "string \<Rightarrow> string \<Rightarrow> string"
  path_relative :: "string \<Rightarrow> string \<Rightarrow> string"
  toISOString :: "nat \<Rightarrow> string"
  jsonParse :: "string \<Rightarrow> string + 'j"
  parseHealthCache :: "string \<Rightarrow> health_cache option"
  ajvCompile :: "'j \<Rightarrow> error + ('j \<Rightarrow> ajv_outcome)"

section \<open>Effects\<close>

text \<open>
  A computation takes the world and returns its result (\<open>Inl\<close> a thrown error), the
  new world and the events it produced, in order.
\<close>

type_synonym ('a, 'x) io = "'x world \<Rightarrow> (error + 'a) \<times> 'x world \<times> event list"

definition io_return :: "'a \<Rightarrow> ('a, 'x) io" where
  "io_return a = (\<lambda>w. (Inr a, w, []))"

definition io_throw :: "error \<Rightarrow> ('a, 'x) io" where
  "io_throw e = (\<lambda>w. (Inl e, w, []))"

definition io_bind :: "('a, 'x) io \<Rightarrow> ('a \<Rightarrow> ('b, 'x) io) \<Rightarrow> ('b, 'x) io" where
  "io_bind m f = (\<lambda>w.
     (case m w of
        (Inl e, w1, t1) \<Rightarrow> (Inl e, w1, t1)
      | (Inr a, w1, t1) \<Rightarrow> (case f a w1 of (r, w2, t2) \<Rightarrow> (r, w2, t1 @ t2))))"

definition io_then :: "(unit, 'x) io \<Rightarrow> ('b, 'x) io \<Rightarrow> ('b, 'x) io" where
  "io_then m k = io_bind m (\<lambda>_. k)"

definition io_read :: "('x world \<Rightarrow> error + 'a) \<Rightarrow> ('a, 'x) io" where
  \<comment> \<open>a computation that only reads the world\<close>
  "io_read f = (\<lambda>w. (f w, w, []))"

definition emit :: "event \<Rightarrow> (unit, 'x) io" where
  "emit ev = (\<lambda>w. (Inr (), w, [ev]))"

definition io_catch :: "('a, 'x) io \<Rightarrow> (error \<Rightarrow> ('a, 'x) io) \<Rightarrow> ('a, 'x) io" where
  \<comment> \<open>\<open>try { m } catch (err) { h(err) }\<close>\<close>
  "io_catch m h = (\<lambda>w.
     (case m w of
        (Inl e, w1, t1) \<Rightarrow> (case h e w1 of (r, w2, t2) \<Rightarrow> (r, w2, t1 @ t2))
      | (Inr a, w1, t1) \<Rightarrow> (Inr a, w1, t1)))"

definition io_when :: "bool \<Rightarrow> (unit, 'x) io \<Rightarrow> (unit, 'x) io" where
  "io_when b m = (if b then m else io_return ())"

definition logInfo :: "string \<Rightarrow> (unit, 'x) io" where
  "logInfo msg = emit (LogInfo msg)"

definition logWarn :: "string \<Rightarrow> (unit, 'x) io" where
  "logWarn msg = emit (LogWarn msg)"

definition logError :: "string \<Rightarrow> (unit, 'x) io" where
  "logError msg = emit (LogError msg)"

definition execShell :: "('x, 'j) runtime \<Rightarrow> role \<Rightarrow> string \<Rightarrow> string \<Rightarrow> (exec_result, 'x) io" where
  "execShell rt r cwd cmd = (\<lambda>w.
     (case spawnShell rt cwd cmd w of (res, w1) \<Rightarrow> (Inr res, w1, [Exec r cwd cmd res])))"

definition sleep :: "('x, 'j) runtime \<Rightarrow> int \<Rightarrow> (unit, 'x) io" where
  "sleep rt ms = (\<lambda>w. (Inr (), elapse rt ms w, [Sleep ms]))"

definition existsSync :: "string option \<Rightarrow> 'x world \<Rightarrow> bool" where
  \<comment> \<open>\<open>fs.existsSync(p)\<close>; it is false for \<open>undefined\<close>\<close>
  "existsSync p w = (case p of None \<Rightarrow> False | Some f \<Rightarrow> files w f \<noteq> None \<or> f \<in> dirs w)"

definition readFile :: "string option \<Rightarrow> 'x world \<Rightarrow> error + string" where
  "readFile p w =
     (case p of
        None \<Rightarrow> Inl (TypeError ''The path argument must be of type string'')
      | Some f \<Rightarrow> (case files w f of None \<Rightarrow> Inl (ENOENT f) | Some raw \<Rightarrow> Inr raw))"

section \<open>Paths\<close>

definition DEFAULT_CONFIG_PATH :: "('x, 'j) runtime \<Rightarrow> string" where
  "DEFAULT_CONFIG_PATH rt = path_join rt [CWD rt, ''warden.config.json'']"

definition expandHome :: "('x, 'j) runtime \<Rightarrow> string \<Rightarrow> string" where
  "expandHome rt inputPath =
     (if startsWith inputPath ''~/'' then path_join rt [homedir rt, drop 2 inputPath]
      else inputPath)"

definition resolvePathWithBase :: "('x, 'j) runtime \<Rightarrow> string option \<Rightarrow> string \<Rightarrow> string option" where
  "resolvePathWithBase rt inputPath baseDir =
     (case inputPath of
        None \<Rightarrow> None
      | Some i \<Rightarrow>
          if i = [] then Some i
          else (let expanded = expandHome rt i
                in Some (if path_isAbsolute rt expanded then expanded
                         else path_resolve rt baseDir expanded)))"

definition configDirOf :: "('x, 'j) runtime \<Rightarrow> config \<Rightarrow> string" where
  \<comment> \<open>\<open>path.dirname(config.__configPath || DEFAULT_CONFIG_PATH)\<close>\<close>
  "configDirOf rt cfg = path_dirname rt (orElse (configPath cfg) (DEFAULT_CONFIG_PATH rt))"

section \<open>Command templates\<close>

fun formatCmd :: "string \<Rightarrow> (string \<times> string option) list \<Rightarrow> string" where
  "formatCmd out [] = out"
| "formatCmd out ((key, val) # vars) =
     formatCmd (replaceAll out (''{'' @ key @ ''}'') (String val)) vars"

fun objectSpread :: "(string \<times> 'v) list \<Rightarrow> (string \<times> 'v) list \<Rightarrow> (string \<times> 'v) list" where
  \<comment> \<open>\<open>{...base, ...extra}\<close>: a key of \<open>base\<close> keeps its place and takes the new value\<close>
  "objectSpread base [] = base"
| "objectSpread base ((k, v) # extra) =
     objectSpread
       (if k \<in> set (map fst base) then map (\<lambda>(k', v'). if k' = k then (k', v) else (k', v')) base
        else base @ [(k, v)])
       extra"

definition healthCachePath :: "('x, 'j) runtime \<Rightarrow> string" where
  "healthCachePath rt = path_join rt [tmpdir rt, ''openclaw-warden'', ''health.json'']"

definition readHealthCache :: "('x, 'j) runtime \<Rightarrow> 'x world \<Rightarrow> health_cache option" where
  "readHealthCache rt w =
     (case files w (healthCachePath rt) of
        None \<Rightarrow> None
      | Some raw \<Rightarrow> parseHealthCache rt raw)"

definition baseVars :: "('x, 'j) runtime \<Rightarrow> config \<Rightarrow> paths_cfg \<Rightarrow> 'x world \<Rightarrow> (string \<times> string option) list" where
  "baseVars rt cfg p w =
     (let configDir = configDirOf rt cfg;
          repoConfigPath = resolvePathWithBase rt (repoConfig p) configDir;
          liveConfigPath = resolvePathWithBase rt (liveConfig p) configDir;
          healthCache = readHealthCache rt w
      in [(''repoConfig'', repoConfigPath),
          (''liveConfig'', liveConfigPath),
          (''target'', Some (nullish (Option.bind (heartbeat cfg) target) [])),
          (''agentId'',
             Some (nullish (Option.bind healthCache agentId)
                    (nullish (Option.bind (Option.bind (heartbeat cfg) agentProbe) fallbackAgentId)
                       []))),
          (''sessionId'', Some (nullish (Option.bind healthCache sessionId) [])),
          (''sessionKey'', Some (nullish (Option.bind healthCache sessionKey) []))])"

definition buildCommand ::
  "('x, 'j) runtime \<Rightarrow> string option \<Rightarrow> config \<Rightarrow> (string \<times> string option) list \<Rightarrow> 'x world \<Rightarrow> error + string" where
  "buildCommand rt template cfg extraVars w =
     (case paths cfg of
        None \<Rightarrow> Inl (TypeError ''Cannot read properties of undefined (reading repoConfig)'')
      | Some p \<Rightarrow>
          (case template of
             None \<Rightarrow> Inl (TypeError ''Cannot read properties of undefined (reading replaceAll)'')
           | Some t \<Rightarrow> Inr (formatCmd t (objectSpread (baseVars rt cfg p w) extraVars))))"

section \<open>One heartbeat cycle\<close>

datatype cycle_end =
    Skipped       \<comment> \<open>the return when no check command is configured\<close>
  | Healthy       \<comment> \<open>the return inside the loop\<close>
  | Restarted     \<comment> \<open>the end of the function\<close>

definition hbOf :: "config \<Rightarrow> heartbeat_cfg" where
  \<comment> \<open>\<open>config.heartbeat || {}\<close>\<close>
  "hbOf cfg = (case heartbeat cfg of None \<Rightarrow> emptyHeartbeat | Some h \<Rightarrow> h)"

definition agentProbeEnabled :: "config \<Rightarrow> bool" where
  \<comment> \<open>\<open>Boolean(hb.agentProbe?.enabled)\<close>\<close>
  "agentProbeEnabled cfg = (case agentProbe (hbOf cfg) of None \<Rightarrow> False | Some a \<Rightarrow> enabled a)"

definition agentProbeCommand :: "config \<Rightarrow> string option" where
  \<comment> \<open>\<open>hb.agentProbe?.command\<close>\<close>
  "agentProbeCommand cfg = Option.bind (agentProbe (hbOf cfg)) command"

definition waitSecondsOf :: "config \<Rightarrow> int list" where
  \<comment> \<open>\<open>Array.isArray(hb.waitSeconds) ? hb.waitSeconds : [30, 40, 50]\<close>\<close>
  "waitSecondsOf cfg = (case waitSeconds (hbOf cfg) of None \<Rightarrow> [30, 40, 50] | Some ws \<Rightarrow> ws)"

definition failed :: "exec_result \<Rightarrow> bool" where
  \<comment> \<open>\<open>res.code !== 0\<close>\<close>
  "failed res = (code res \<noteq> Some 0)"

definition send :: "('x, 'j) runtime \<Rightarrow> config \<Rightarrow> string \<Rightarrow> (unit, 'x) io" where
  "send rt cfg idv =
     io_bind (io_read (buildCommand rt (sendCommand (hbOf cfg)) cfg [(''id'', Some idv)])) (\<lambda>cmd.
     io_then (logInfo (''Heartbeat send: '' @ cmd)) (
     io_bind (execShell rt Send (CWD rt) cmd) (\<lambda>res.
     io_when (failed res) (logWarn (''Heartbeat send failed: '' @ trim (stderr res))))))"

definition check :: "('x, 'j) runtime \<Rightarrow> config \<Rightarrow> string \<Rightarrow> (bool, 'x) io" where
  "check rt cfg idv =
     io_bind (io_read (buildCommand rt (checkCommand (hbOf cfg)) cfg [(''id'', Some idv)])) (\<lambda>cmd.
     io_bind (execShell rt Check (CWD rt) cmd) (\<lambda>res.
     if failed res then io_return False
     else if \<not> agentProbeEnabled cfg then io_return True
     else if \<not> truthy (agentProbeCommand cfg) then
       io_then (logWarn ''agentProbe enabled but command not configured; skipping probe.'')
         (io_return True)
     else
       io_bind (io_read (buildCommand rt (agentProbeCommand cfg) cfg [(''id'', Some idv)])) (\<lambda>probeCmd.
       io_then (logInfo (''Agent probe: '' @ probeCmd)) (
       io_bind (execShell rt Probe (CWD rt) probeCmd) (\<lambda>probeRes.
       io_return (\<not> failed probeRes))))))"

text \<open>
  The loop \<open>for (let i = 0; i < waitSeconds.length; i += 1)\<close>, from index \<open>i\<close>. It
  returns \<open>True\<close> where the source returns from inside the loop, \<open>False\<close> when the
  loop ends.
\<close>

function attempts :: "('x, 'j) runtime \<Rightarrow> config \<Rightarrow> string \<Rightarrow> nat \<Rightarrow> (bool, 'x) io" where
  "attempts rt cfg idv i =
     (if i < length (waitSecondsOf cfg) then
        io_then (sleep rt (waitSecondsOf cfg ! i * 1000)) (
        io_bind (check rt cfg idv) (\<lambda>ok.
        if ok then io_then (logInfo ''Heartbeat reply received.'') (io_return True)
        else
          io_then
            (io_when (int i < int (length (waitSecondsOf cfg)) - 1)
               (io_when (truthy (sendCommand (hbOf cfg))) (send rt cfg idv)))
            (attempts rt cfg idv (i + 1))))
      else io_return False)"
  by pat_completeness auto
termination
  by (relation "measure (\<lambda>(rt, cfg, idv, i). length (waitSecondsOf cfg) - i)") auto

declare attempts.simps [simp del]

definition runHeartbeatOnce :: "('x, 'j) runtime \<Rightarrow> config \<Rightarrow> string \<Rightarrow> (cycle_end, 'x) io" where
  "runHeartbeatOnce rt cfg idv =
     (if \<not> truthy (checkCommand (hbOf cfg)) then
        io_then (logWarn ''Heartbeat checkCommand not configured. Skipping heartbeat.'')
          (io_return Skipped)
      else
        io_then (io_when (truthy (sendCommand (hbOf cfg))) (send rt cfg idv)) (
        io_bind (attempts rt cfg idv 0) (\<lambda>replied.
        if replied then io_return Healthy
        else
          io_then (logWarn ''Heartbeat failed after retries. Restarting gateway...'') (
          io_bind (io_read (buildCommand rt
                     (Some (orElse (restartCommand (hbOf cfg)) ''openclaw gateway restart''))
                     cfg [(''id'', Some idv)])) (\<lambda>restartCmd.
          io_bind (execShell rt Restart (CWD rt) restartCmd) (\<lambda>res.
          io_then (io_when (failed res)
                     (logWarn (''Restart command failed: '' @ trim (stderr res)))) (
          io_then (io_when (notifyOnRestart (hbOf cfg) \<and> truthy (notifyCommand (hbOf cfg)))
                     (io_bind (io_read (buildCommand rt (notifyCommand (hbOf cfg)) cfg
                                 [(''id'', Some idv)])) (\<lambda>cmd.
                      io_then (logInfo (''Notify restart: '' @ cmd)) (
                      io_bind (execShell rt Notify (CWD rt) cmd) (\<lambda>notifyRes.
                      io_when (failed notifyRes)
                        (logWarn (''Notify command failed: '' @ trim (stderr notifyRes))))))))
            (io_return Restarted))))))))"


section \<open>Validation of the managed copy\<close>

definition readJson :: "('x, 'j) runtime \<Rightarrow> string option \<Rightarrow> 'x world \<Rightarrow> error + 'j" where
  "readJson rt filePath w =
     (case readFile filePath w of
        Inl e \<Rightarrow> Inl e
      | Inr raw \<Rightarrow> (case jsonParse rt raw of Inl msg \<Rightarrow> Inl (SyntaxError msg) | Inr j \<Rightarrow> Inr j))"

definition loadSchema :: "('x, 'j) runtime \<Rightarrow> string option \<Rightarrow> 'x world \<Rightarrow> error + 'j" where
  "loadSchema rt schemaFilePath w =
     (if \<not> existsSync schemaFilePath w
      then Inl (Error (''Schema file not found: '' @ String schemaFilePath))
      else readJson rt schemaFilePath w)"

definition errorLine :: "ajv_error \<Rightarrow> string" where
  \<comment> \<open>one entry of the report: \<open>`- ${at} ${e.message || "invalid"}`\<close> with
      \<open>at = e.instancePath || e.schemaPath || ""\<close>\<close>
  "errorLine e =
     (let at = (if instancePath e \<noteq> [] then instancePath e
                else if schemaPath e \<noteq> [] then schemaPath e else [])
      in ''- '' @ at @ '' '' @ orElse (message e) ''invalid'')"

definition validateConfig :: "('x, 'j) runtime \<Rightarrow> config \<Rightarrow> 'x world \<Rightarrow> error + bool" where
  "validateConfig rt cfg w =
     (case paths cfg of
        None \<Rightarrow> Inl (TypeError ''Cannot read properties of undefined (reading repoConfig)'')
      | Some p \<Rightarrow>
          (let configDir = configDirOf rt cfg;
               repoConfigPath = resolvePathWithBase rt (repoConfig p) configDir;
               schemaFilePath = resolvePathWithBase rt (schemaFile p) configDir
           in case readFile repoConfigPath w of
                Inl e \<Rightarrow> Inl e
              | Inr raw \<Rightarrow>
                  (case jsonParse rt raw of
                     Inl msg \<Rightarrow>
                       Inl (Error (''Invalid JSON: '' @ (if msg \<noteq> [] then msg else ''SyntaxError'')))
                   | Inr json \<Rightarrow>
                       (case loadSchema rt schemaFilePath w of
                          Inl e \<Rightarrow> Inl e
                        | Inr schema \<Rightarrow>
                            (case ajvCompile rt schema of
                               Inl e \<Rightarrow> Inl e
                             | Inr validate \<Rightarrow>
                                 (let res = validate json in
                                  if \<not> ok res then
                                    Inl (Error (''Schema validation failed:'' @ [CHR 0x0A] @
                                      joinWith [CHR 0x0A]
                                        (map errorLine
                                           (case errors res of None \<Rightarrow> [] | Some es \<Rightarrow> es))))
                                  else Inr True))))))"

section \<open>Files\<close>

fun decimal :: "nat \<Rightarrow> string" where
  \<comment> \<open>a number in a template literal\<close>
  "decimal n =
     (if n < 10 then [char_of (48 + n)]
      else decimal (n div 10) @ [char_of (48 + n mod 10)])"

declare decimal.simps [simp del]

definition ensureDir :: "string \<Rightarrow> (unit, 'x) io" where
  \<comment> \<open>\<open>mkdir(dirPath, {recursive: true})\<close>\<close>
  "ensureDir dirPath = (\<lambda>w. (Inr (), w\<lparr>dirs := insert dirPath (dirs w)\<rparr>, []))"

definition copyFile :: "string option \<Rightarrow> string option \<Rightarrow> (unit, 'x) io" where
  "copyFile src dest = (\<lambda>w.
     (case (src, dest) of
        (Some s, Some d) \<Rightarrow>
          (case files w s of
             None \<Rightarrow> (Inl (ENOENT s), w, [])
           | Some content \<Rightarrow> (Inr (), w\<lparr>files := (files w)(d \<mapsto> content)\<rparr>, []))
      | _ \<Rightarrow> (Inl (TypeError ''The path argument must be of type string''), w, [])))"

definition rename :: "string \<Rightarrow> string \<Rightarrow> (unit, 'x) io" where
  "rename src dest = (\<lambda>w.
     (case files w src of
        None \<Rightarrow> (Inl (ENOENT src), w, [])
      | Some content \<Rightarrow> (Inr (), w\<lparr>files := (files w)(src := None, dest \<mapsto> content)\<rparr>, [])))"

definition atomicCopy :: "('x, 'j) runtime \<Rightarrow> string option \<Rightarrow> string option \<Rightarrow> (unit, 'x) io" where
  "atomicCopy rt srcPath destPath =
     (case destPath of
        None \<Rightarrow> io_throw (TypeError ''The path argument must be of type string'')
      | Some dest \<Rightarrow>
          (let dir = path_dirname rt dest in
           io_then (ensureDir dir) (
           io_bind (io_read (\<lambda>w. Inr (now w))) (\<lambda>t.
           let tempPath = path_join rt [dir, ''.'' @ path_basename rt dest @ ''.tmp-'' @ decimal t] in
           io_then (copyFile srcPath (Some tempPath)) (rename tempPath dest)))))"

section \<open>Version control\<close>

definition ensureGitRepo :: "('x, 'j) runtime \<Rightarrow> string \<Rightarrow> bool \<Rightarrow> (bool, 'x) io" where
  "ensureGitRepo rt repoDir autoInitFlag =
     io_bind (io_read (\<lambda>w. Inr (existsSync (Some (path_join rt [repoDir, ''.git''])) w))) (\<lambda>present.
     if present then io_return True
     else if \<not> autoInitFlag then io_return False
     else
       io_bind (execShell rt Git repoDir ''git init'') (\<lambda>res.
       if failed res then
         io_then (logWarn (''git init failed: '' @ trim (stderr res))) (io_return False)
       else io_return True))"

definition statusLines :: "string \<Rightarrow> string list" where
  \<comment> \<open>\<open>stdout.split("\n").filter(Boolean)\<close>\<close>
  "statusLines out = filter (\<lambda>l. l \<noteq> []) (splitOn (CHR 0x0A) out)"

definition reportsChange :: "string \<Rightarrow> string list \<Rightarrow> bool" where
  \<comment> \<open>\<open>lines.some((line) => files.some((file) => line.includes(file)))\<close>\<close>
  "reportsChange out fileList =
     list_ex (\<lambda>line. list_ex (\<lambda>file. includesStr line file) fileList) (statusLines out)"

definition gitCommitIfChanged ::
  "('x, 'j) runtime \<Rightarrow> string \<Rightarrow> string list \<Rightarrow> string \<Rightarrow> (unit, 'x) io" where
  "gitCommitIfChanged rt repoDir fileList msg =
     io_bind (execShell rt Git repoDir ''git status --porcelain'') (\<lambda>status.
     if failed status then logWarn (''git status failed: '' @ trim (stderr status))
     else if \<not> reportsChange (stdout status) fileList then io_return ()
     else
       io_bind (execShell rt Git repoDir
                  (''git add '' @ joinWith '' '' (map (\<lambda>f. [CHR 0x22] @ f @ [CHR 0x22]) fileList)))
         (\<lambda>addRes.
       if failed addRes then logWarn (''git add failed: '' @ trim (stderr addRes))
       else
         io_bind (execShell rt Git repoDir (''git commit -m '' @ [CHR 0x22] @ msg @ [CHR 0x22]))
           (\<lambda>commitRes.
         io_when (failed commitRes)
           (logWarn (''git commit failed: '' @ trim (stderr commitRes))))))"

definition gitEnabled :: "config \<Rightarrow> bool" where
  \<comment> \<open>\<open>config.git?.enabled\<close>\<close>
  "gitEnabled cfg = (case git cfg of None \<Rightarrow> False | Some g \<Rightarrow> git_enabled g)"

definition gitAutoInit :: "config \<Rightarrow> bool" where
  \<comment> \<open>\<open>Boolean(config.git?.autoInit)\<close>\<close>
  "gitAutoInit cfg = (case git cfg of None \<Rightarrow> False | Some g \<Rightarrow> autoInit g)"

text \<open>
  The block \<open>if (config.git?.enabled) { ... }\<close> that ends \<open>syncPull\<close>, \<open>syncPush\<close>
  and \<open>initWarden\<close>, the same in the three but for the prefix of the commit message.
\<close>

definition commitStep ::
  "('x, 'j) runtime \<Rightarrow> config \<Rightarrow> string \<Rightarrow> string \<Rightarrow> string \<Rightarrow> (unit, 'x) io" where
  "commitStep rt cfg repoRoot repoConfigPath label =
     io_when (gitEnabled cfg) (
       io_bind (ensureGitRepo rt repoRoot (gitAutoInit cfg)) (\<lambda>gitReady.
       io_when gitReady (
         io_bind (io_read (\<lambda>w. Inr (now w))) (\<lambda>t.
         gitCommitIfChanged rt repoRoot [path_relative rt repoRoot repoConfigPath]
           (label @ toISOString rt t)))))"

section \<open>Pull and push\<close>

definition syncPull :: "('x, 'j) runtime \<Rightarrow> config \<Rightarrow> (unit, 'x) io" where
  "syncPull rt cfg =
     (case paths cfg of
        None \<Rightarrow> io_throw (TypeError ''Cannot read properties of undefined (reading repoConfig)'')
      | Some p \<Rightarrow>
          (let configDir = configDirOf rt cfg in
           case resolvePathWithBase rt (repoConfig p) configDir of
             None \<Rightarrow> io_throw (TypeError ''The path argument must be of type string'')
           | Some repoConfigPath \<Rightarrow>
               (let repoRoot = path_dirname rt repoConfigPath;
                    liveConfigPath = resolvePathWithBase rt (liveConfig p) configDir
                in io_bind (io_read (\<lambda>w. Inr (existsSync liveConfigPath w))) (\<lambda>present.
                   if \<not> present then
                     io_throw (Error (''Live config not found: '' @ String liveConfigPath))
                   else
                     io_then (ensureDir (path_dirname rt repoConfigPath)) (
                     io_then (copyFile liveConfigPath (Some repoConfigPath)) (
                     io_then (logInfo (''Pulled live config -> repo: '' @ repoConfigPath)) (
                     commitStep rt cfg repoRoot repoConfigPath ''sync pull '')))))))"

definition syncPush :: "('x, 'j) runtime \<Rightarrow> config \<Rightarrow> (unit, 'x) io" where
  "syncPush rt cfg =
     (case paths cfg of
        None \<Rightarrow> io_throw (TypeError ''Cannot read properties of undefined (reading repoConfig)'')
      | Some p \<Rightarrow>
          (let configDir = configDirOf rt cfg in
           case resolvePathWithBase rt (repoConfig p) configDir of
             None \<Rightarrow> io_throw (TypeError ''The path argument must be of type string'')
           | Some repoConfigPath \<Rightarrow>
               (let repoRoot = path_dirname rt repoConfigPath;
                    liveConfigPath = resolvePathWithBase rt (liveConfig p) configDir
                in io_bind (io_read (validateConfig rt cfg)) (\<lambda>valid.
                   io_then (atomicCopy rt (Some repoConfigPath) liveConfigPath) (
                   io_then (logInfo (''Pushed repo config -> live: '' @ String liveConfigPath)) (
                   commitStep rt cfg repoRoot repoConfigPath ''sync push ''))))))"

section \<open>The watcher's timer and the heartbeat loop\<close>

definition errorText :: "error \<Rightarrow> string" where
  \<comment> \<open>\<open>err && err.message ? err.message : String(err)\<close>\<close>
  "errorText e =
     (case e of
        Error m \<Rightarrow> if m \<noteq> [] then m else ''Error''
      | TypeError m \<Rightarrow> if m \<noteq> [] then m else ''TypeError''
      | SyntaxError m \<Rightarrow> if m \<noteq> [] then m else ''SyntaxError''
      | ENOENT f \<Rightarrow> ''ENOENT: no such file or directory, '' @ f)"

definition watchTimer :: "('x, 'j) runtime \<Rightarrow> config \<Rightarrow> (unit, 'x) io" where
  \<comment> \<open>the callback of \<open>setTimeout\<close> in \<open>watchConfig\<close>\<close>
  "watchTimer rt cfg =
     io_catch (io_then (syncPush rt cfg) (logInfo ''Applied config after change.''))
       (\<lambda>err. logError (errorText err))"

text \<open>
  The variable \<open>running\<close> of \<open>runHeartbeatLoop\<close>, with two counters that the program
  does not keep: the cycles in progress and the cycles begun so far. \<open>tickEnter\<close> is
  \<open>tick\<close> up to its \<open>await\<close> (it tells whether a cycle begins), \<open>tickLeave\<close> is the
  \<open>finally\<close> block, run when the awaited cycle settles.
\<close>

record loop_state =
  running :: bool
  inflight :: nat
  begun :: nat

definition tickEnter :: "loop_state \<Rightarrow> bool \<times> loop_state" where
  "tickEnter s =
     (if running s then (False, s)
      else (True, s\<lparr>running := True, inflight := inflight s + 1, begun := begun s + 1\<rparr>))"

definition tickLeave :: "loop_state \<Rightarrow> loop_state" where
  "tickLeave s = s\<lparr>running := False, inflight := inflight s - 1\<rparr>"

text \<open>One call of \<open>tick\<close> run to its end with nothing else in between.\<close>

definition tick ::
  "('x, 'j) runtime \<Rightarrow> config \<Rightarrow> string \<Rightarrow> loop_state \<Rightarrow> 'x world
     \<Rightarrow> ((error + unit) \<times> 'x world \<times> event list) \<times> loop_state" where
  "tick rt cfg idv s w =
     (case tickEnter s of
        (False, s1) \<Rightarrow> ((Inr (), w, []), s1)
      | (True, s1) \<Rightarrow>
          (case runHeartbeatOnce rt cfg idv w of
             (Inl e, w1, t1) \<Rightarrow> ((Inl e, w1, t1), tickLeave s1)
           | (Inr r, w1, t1) \<Rightarrow> ((Inr (), w1, t1), tickLeave s1)))"

definition intervalMs :: "config \<Rightarrow> int" where
  \<comment> \<open>\<open>Math.max(1, Number(config.heartbeat?.intervalMinutes ?? 5)) * 60 * 1000\<close>\<close>
  "intervalMs cfg = max 1 (nullish (Option.bind (heartbeat cfg) intervalMinutes) 5) * 60 * 1000"

definition runHeartbeatLoop ::
  "('x, 'j) runtime \<Rightarrow> config \<Rightarrow> string \<Rightarrow> 'x world
     \<Rightarrow> ((error + unit) \<times> 'x world \<times> event list) \<times> loop_state" where
  \<comment> \<open>\<open>await tick(); setInterval(tick, intervalMs)\<close>\<close>
  "runHeartbeatLoop rt cfg idv w =
     (case tick rt cfg idv \<lparr>running = False, inflight = 0, begun = 0\<rparr> w of
        ((Inl e, w1, t1), s1) \<Rightarrow> ((Inl e, w1, t1), s1)
      | ((Inr u, w1, t1), s1) \<Rightarrow> ((Inr (), w1, t1 @ [SetInterval (intervalMs cfg)]), s1))"

datatype process = Alive | Exited int

definition mainHeartbeat ::
  "('x, 'j) runtime \<Rightarrow> config \<Rightarrow> string \<Rightarrow> 'x world \<Rightarrow> process \<times> 'x world \<times> event list" where
  \<comment> \<open>\<open>main()\<close> for the command \<open>heartbeat\<close>, with the handler
      \<open>main().catch((err) => { logError(...); process.exit(1); })\<close>\<close>
  "mainHeartbeat rt cfg idv w =
     (case fst (runHeartbeatLoop rt cfg idv w) of
        (Inl e, w1, t1) \<Rightarrow> (Exited 1, w1, t1 @ [LogError (errorText e)])
      | (Inr u, w1, t1) \<Rightarrow> (Alive, w1, t1))"

text \<open>
  The timer and the cycles as a machine: a tick fires (the timer calls \<open>tick\<close>), or the
  cycle in progress settles (its promise is fulfilled or rejected and the \<open>finally\<close>
  block runs). Between two such steps the program runs nothing else of \<open>tick\<close>.
\<close>

datatype loop_event = TickFired | CycleSettled

fun loopStep :: "loop_state \<Rightarrow> loop_event \<Rightarrow> loop_state" where
  "loopStep s TickFired = snd (tickEnter s)"
| "loopStep s CycleSettled = (if inflight s = 0 then s else tickLeave s)"

definition loopRun :: "loop_event list \<Rightarrow> loop_state" where
  "loopRun evs = foldl loopStep \<lparr>running = False, inflight = 0, begun = 0\<rparr> evs"


section \<open>Reading a trace\<close>

fun execRoles :: "event list \<Rightarrow> role list" where
  \<comment> \<open>the call sites of the commands a trace ran, in order\<close>
  "execRoles [] = []"
| "execRoles (Exec r cwd cmd res # evs) = r # execRoles evs"
| "execRoles (ev # evs) = execRoles evs"

fun sleepsOf :: "event list \<Rightarrow> int list" where
  \<comment> \<open>the waits of a trace, in order\<close>
  "sleepsOf [] = []"
| "sleepsOf (Sleep ms # evs) = ms # sleepsOf evs"
| "sleepsOf (ev # evs) = sleepsOf evs"


text \<open>The statements of \<open>runHeartbeatOnce\<close> after its loop, named for the proofs:
  the restart, then the notification when it is enabled and configured.\<close>

definition afterLoop :: "('x, 'j) runtime \<Rightarrow> config \<Rightarrow> string \<Rightarrow> (cycle_end, 'x) io" where
  "afterLoop rt cfg idv =
     io_then (logWarn ''Heartbeat failed after retries. Restarting gateway...'') (
     io_bind (io_read (buildCommand rt
                (Some (orElse (restartCommand (hbOf cfg)) ''openclaw gateway restart''))
                cfg [(''id'', Some idv)])) (\<lambda>restartCmd.
     io_bind (execShell rt Restart (CWD rt) restartCmd) (\<lambda>res.
     io_then (io_when (failed res)
                (logWarn (''Restart command failed: '' @ trim (stderr res)))) (
     io_then (io_when (notifyOnRestart (hbOf cfg) \<and> truthy (notifyCommand (hbOf cfg)))
                (io_bind (io_read (buildCommand rt (notifyCommand (hbOf cfg)) cfg
                            [(''id'', Some idv)])) (\<lambda>cmd.
                 io_then (logInfo (''Notify restart: '' @ cmd)) (
                 io_bind (execShell rt Notify (CWD rt) cmd) (\<lambda>notifyRes.
                 io_when (failed notifyRes)
                   (logWarn (''Notify command failed: '' @ trim (stderr notifyRes))))))))
       (io_return Restarted)))))"

text \<open>The cycle from attempt \<open>i\<close> on: the rest of the loop and what follows it.\<close>

definition cycleFrom :: "('x, 'j) runtime \<Rightarrow> config \<Rightarrow> string \<Rightarrow> nat \<Rightarrow> (cycle_end, 'x) io" where
  "cycleFrom rt cfg idv i =
     io_bind (attempts rt cfg idv i) (\<lambda>replied.
       if replied then io_return Healthy else afterLoop rt cfg idv)"


section \<open>A small concrete runtime\<close>

text \<open>
  POSIX-like path functions, a toy JSON parser (a text is well formed when it starts
  with a brace) and a toy validator (a document is valid when it equals the schema;
  otherwise it reports two errors). The shell is a parameter.
\<close>

definition dirnamePosix :: "string \<Rightarrow> string" where
  "dirnamePosix p = rev (drop 1 (dropWhile (\<lambda>c. c \<noteq> CHR ''/'') (rev p)))"

definition basenamePosix :: "string \<Rightarrow> string" where
  "basenamePosix p = rev (takeWhile (\<lambda>c. c \<noteq> CHR ''/'') (rev p))"

definition exampleErrors :: "ajv_error list" where
  "exampleErrors =
     [\<lparr>instancePath = ''/gateway/port'',
       schemaPath = ''#/properties/gateway/properties/port/type'',
       message = Some ''must be integer''\<rparr>,
      \<lparr>instancePath = [], schemaPath = ''#/required'',
       message = Some ''must have required property agents''\<rparr>]"

definition exampleRuntime ::
  "(string \<Rightarrow> string \<Rightarrow> 'x world \<Rightarrow> exec_result \<times> 'x world) \<Rightarrow> ('x, string) runtime" where
  "exampleRuntime sh =
     \<lparr>spawnShell = sh,
      elapse = (\<lambda>ms w. w\<lparr>now := now w + nat ms\<rparr>),
      CWD = ''/srv'', homedir = ''/home/op'', tmpdir = ''/tmp'',
      path_join = joinWith ''/'',
      path_dirname = dirnamePosix,
      path_basename = basenamePosix,
      path_isAbsolute = (\<lambda>p. startsWith p ''/''),
      path_resolve = (\<lambda>base p. joinWith ''/'' [base, p]),
      path_relative = (\<lambda>from to. drop (length from + 1) to),
      toISOString = (\<lambda>n. ''2026-01-01T00:00:00.000Z''),
      jsonParse = (\<lambda>raw. if startsWith raw ''{'' then Inr raw else Inl ''Unexpected token''),
      parseHealthCache = (\<lambda>raw. None),
      ajvCompile = (\<lambda>schema. Inr (\<lambda>j.
        if j = schema then \<lparr>ok = True, errors = None\<rparr>
        else \<lparr>ok = False, errors = Some exampleErrors\<rparr>))\<rparr>"

definition tableShell ::
  "(string \<Rightarrow> int) \<Rightarrow> string \<Rightarrow> string \<Rightarrow> 'x world \<Rightarrow> exec_result \<times> 'x world" where
  \<comment> \<open>a shell whose exit code is a function of the command alone\<close>
  "tableShell t cwd cmd w = (\<lparr>code = Some (t cmd), stdout = [], stderr = ''down''\<rparr>, w)"

definition exampleWorld :: "unit world" where
  "exampleWorld = \<lparr>files = (\<lambda>p. None), dirs = {}, now = 0, extern = ()\<rparr>"

definition examplePaths :: paths_cfg where
  "examplePaths =
     \<lparr>repoConfig = Some ''/srv/config/openclaw.json'',
      liveConfig = Some ''/home/op/.openclaw/openclaw.json'',
      schemaFile = Some ''/srv/state/schema.json''\<rparr>"

definition exampleConfig :: config where
  "exampleConfig =
     \<lparr>configPath = Some ''/srv/warden.config.json'',
      paths = Some examplePaths,
      git = Some \<lparr>git_enabled = True, autoInit = True\<rparr>,
      heartbeat = Some
        \<lparr>intervalMinutes = Some 5, waitSeconds = Some [30, 40, 50],
         checkCommand = Some ''check'', sendCommand = None,
         restartCommand = Some ''restart'', notifyCommand = Some ''notify'',
         notifyOnRestart = True,
         agentProbe = Some \<lparr>enabled = True, fallbackAgentId = Some ''main'',
                             command = Some ''probe''\<rparr>,
         target = None\<rparr>\<rparr>"

definition flakyShell :: "int \<Rightarrow> string \<Rightarrow> string \<Rightarrow> int world \<Rightarrow> exec_result \<times> int world" where
  \<comment> \<open>a shell whose first \<open>n\<close> commands exit 1 and whose later commands exit 0;
      the world counts the commands run\<close>
  "flakyShell n cwd cmd w =
     (\<lparr>code = Some (if extern w < n then 1 else 0), stdout = [], stderr = ''down''\<rparr>,
      w\<lparr>extern := extern w + 1\<rparr>)"

definition countingWorld :: "int world" where
  "countingWorld = \<lparr>files = (\<lambda>p. None), dirs = {}, now = 0, extern = 0\<rparr>"

definition syncWorld :: "string \<Rightarrow> unit world" where
  \<comment> \<open>a workspace with a managed copy of the given content, a schema, a live file and a
      git directory\<close>
  "syncWorld managed =
     \<lparr>files = [''/srv/config/openclaw.json'' \<mapsto> managed,
               ''/srv/state/schema.json'' \<mapsto> ''{schema}'',
               ''/home/op/.openclaw/openclaw.json'' \<mapsto> ''{live}''],
      dirs = {''/srv/config/.git''}, now = 1700000000000, extern = ()\<rparr>"

definition quietRuntime :: "(unit, string) runtime" where
  \<comment> \<open>every command exits 0 and prints nothing\<close>
  "quietRuntime = exampleRuntime (tableShell (\<lambda>c. 0))"

definition exampleReport :: string where
  "exampleReport =
     ''Schema validation failed:'' @ [CHR 0x0A] @
     ''- /gateway/port must be integer'' @ [CHR 0x0A] @
     ''- #/required must have required property agents''"

text \<open>
  Following the words of the specification, "the repository reports the file as changed":
  some line of \<open>git status --porcelain\<close> is the entry of that file, its path (after
  the two status letters and a blank) being the file's.
\<close>

definition reportsFileChanged_spec :: "string \<Rightarrow> string \<Rightarrow> bool" where
  "reportsFileChanged_spec out file = list_ex (\<lambda>line. drop 3 line = file) (statusLines out)"

text \<open>A repository in which another file, \<open>openclaw.json.bak\<close>, is staged and the
  managed file is unchanged: its status names only the other file, every command exits 0.\<close>

definition stagedSiblingShell :: "string \<Rightarrow> string \<Rightarrow> unit world \<Rightarrow> exec_result \<times> unit world" where
  "stagedSiblingShell cwd cmd w =
     (\<lparr>code = Some 0,
       stdout = (if cmd = ''git status --porcelain'' then ''A  openclaw.json.bak'' @ [CHR 0x0A] else []),
       stderr = []\<rparr>, w)"

definition pushRuntime :: "(unit, string) runtime" where
  "pushRuntime = exampleRuntime stagedSiblingShell"

section \<open>Templates as pieces\<close>

text \<open>
  A template read as literal text and placeholders. Following the words of the
  specification, \<open>fillTemplate_spec\<close> substitutes in one pass: every placeholder of
  a variable becomes \<open>String\<close> of its value, and nothing else changes. A piece is
  plain when its text has no opening brace (a placeholder's name has no brace at all);
  a variable is plain when its name has no brace and its value has neither an opening
  brace nor a dollar sign.
\<close>

datatype piece = Lit string | Hole string

fun renderPiece :: "piece \<Rightarrow> string" where
  "renderPiece (Lit s) = s"
| "renderPiece (Hole k) = ''{'' @ k @ ''}''"

definition renderTemplate :: "piece list \<Rightarrow> string" where
  "renderTemplate ps = concat (map renderPiece ps)"

fun fillPiece :: "(string \<times> string option) list \<Rightarrow> piece \<Rightarrow> string" where
  "fillPiece vars (Lit s) = s"
| "fillPiece vars (Hole k) =
     (case map_of vars k of None \<Rightarrow> ''{'' @ k @ ''}'' | Some v \<Rightarrow> String v)"

definition fillTemplate_spec :: "(string \<times> string option) list \<Rightarrow> piece list \<Rightarrow> string" where
  "fillTemplate_spec vars ps = concat (map (fillPiece vars) ps)"

fun plainPiece :: "piece \<Rightarrow> bool" where
  "plainPiece (Lit s) = (CHR ''{'' \<notin> set s)"
| "plainPiece (Hole k) = (CHR ''{'' \<notin> set k \<and> CHR ''}'' \<notin> set k)"

definition plainVar :: "string \<times> string option \<Rightarrow> bool" where
  "plainVar kv =
     (CHR ''{'' \<notin> set (fst kv) \<and> CHR ''}'' \<notin> set (fst kv) \<and>
      CHR ''{'' \<notin> set (String (snd kv)) \<and> CHR ''$'' \<notin> set (String (snd kv)))"

definition fillHole :: "string \<Rightarrow> string \<Rightarrow> piece \<Rightarrow> piece" where
  "fillHole key v p = (if p = Hole key then Lit v else p)"


section \<open>Lemmas: traces and command building\<close>

lemma execRoles_append [simp]: "execRoles (xs @ ys) = execRoles xs @ execRoles ys"
  by (induction xs rule: execRoles.induct) simp_all

lemma replaceScan_no_brace:
  "CHR ''{'' \<notin> set s \<Longrightarrow> replaceScan (CHR ''{'' # pat) rep before s = s"
proof (induction s arbitrary: before)
  case Nil
  show ?case by (subst replaceScan.simps) (simp add: startsWith_def)
next
  case (Cons c cs)
  then show ?case by (subst replaceScan.simps) (auto simp: startsWith_def)
qed

lemma formatCmd_no_brace:
  "CHR ''{'' \<notin> set t \<Longrightarrow> formatCmd t vars = t"
  by (induction vars arbitrary: t) (auto simp: replaceAll_def replaceScan_no_brace)

lemma buildCommand_no_brace:
  "paths cfg = Some p \<Longrightarrow> CHR ''{'' \<notin> set t \<Longrightarrow> buildCommand rt (Some t) cfg ev w = Inr t"
  by (simp add: buildCommand_def formatCmd_no_brace)


lemma check_roles:
  "check rt cfg idv w = (Inr b, w', evs) \<Longrightarrow>
   execRoles evs = [Check] \<or> execRoles evs = [Check, Probe]"
  by (auto simp: check_def io_bind_def io_then_def io_read_def io_return_def execShell_def
        logWarn_def logInfo_def emit_def
      split: option.splits sum.splits prod.splits if_splits)




lemma runHeartbeatOnce_afterLoop:
  "runHeartbeatOnce rt cfg idv =
     (if \<not> truthy (checkCommand (hbOf cfg)) then
        io_then (logWarn ''Heartbeat checkCommand not configured. Skipping heartbeat.'')
          (io_return Skipped)
      else
        io_then (io_when (truthy (sendCommand (hbOf cfg))) (send rt cfg idv)) (
        io_bind (attempts rt cfg idv 0) (\<lambda>replied.
        if replied then io_return Healthy else afterLoop rt cfg idv)))"
  unfolding runHeartbeatOnce_def afterLoop_def by (rule refl)

lemma io_apply:
  "io_return a w = (Inr a, w, [])"
  "io_throw e w = (Inl e, w, [])"
  "io_read f w = (f w, w, [])"
  "emit ev w = (Inr (), w, [ev])"
  "logInfo s w = (Inr (), w, [LogInfo s])"
  "logWarn s w = (Inr (), w, [LogWarn s])"
  "logError s w = (Inr (), w, [LogError s])"
  "sleep rt ms w = (Inr (), elapse rt ms w, [Sleep ms])"
  "execShell rt r cwd cmd w =
     (Inr (fst (spawnShell rt cwd cmd w)), snd (spawnShell rt cwd cmd w),
      [Exec r cwd cmd (fst (spawnShell rt cwd cmd w))])"
  "io_when b m w = (if b then m w else (Inr (), w, []))"
  "io_then m k w = io_bind m (\<lambda>_. k) w"
  by (simp_all add: io_return_def io_throw_def io_read_def emit_def logInfo_def logWarn_def
      logError_def sleep_def execShell_def io_when_def io_then_def split: prod.splits)

lemma afterLoop_total:
  assumes p: "paths cfg \<noteq> None"
  shows "\<exists>w' evs. afterLoop rt cfg idv w = (Inr Restarted, w', evs) \<and>
     execRoles evs =
       Restart # (if notifyOnRestart (hbOf cfg) \<and> truthy (notifyCommand (hbOf cfg))
                  then [Notify] else [])"
proof -
  from p obtain pc where pc: "paths cfg = Some pc" by auto
  show ?thesis
  proof (cases "truthy (notifyCommand (hbOf cfg))")
    case True
    then obtain nc where nc: "notifyCommand (hbOf cfg) = Some nc"
      by (auto simp: truthy_def split: option.splits)
    have t: "truthy (Some nc)" using True nc by simp
    show ?thesis
      by (cases "notifyOnRestart (hbOf cfg)")
         (simp_all add: afterLoop_def io_apply io_bind_def buildCommand_def pc nc t
            del: objectSpread.simps)
  next
    case False
    then show ?thesis
      by (simp add: afterLoop_def io_apply io_bind_def buildCommand_def pc
            del: objectSpread.simps)
  qed
qed

lemma runHeartbeatOnce_cycleFrom:
  "runHeartbeatOnce rt cfg idv =
     (if \<not> truthy (checkCommand (hbOf cfg)) then
        io_then (logWarn ''Heartbeat checkCommand not configured. Skipping heartbeat.'')
          (io_return Skipped)
      else
        io_then (io_when (truthy (sendCommand (hbOf cfg))) (send rt cfg idv))
          (cycleFrom rt cfg idv 0))"
  unfolding runHeartbeatOnce_def afterLoop_def cycleFrom_def by (rule refl)


lemma sleepsOf_append [simp]: "sleepsOf (xs @ ys) = sleepsOf xs @ sleepsOf ys"
  by (induction xs rule: sleepsOf.induct) simp_all

lemma check_sleeps:
  "check rt cfg idv w = (r, w', evs) \<Longrightarrow> sleepsOf evs = []"
  by (auto simp: check_def io_bind_def io_then_def io_read_def io_return_def execShell_def
        logWarn_def logInfo_def emit_def
      split: option.splits sum.splits prod.splits if_splits)

lemma send_sleeps:
  "send rt cfg idv w = (r, w', evs) \<Longrightarrow> sleepsOf evs = [] \<and> set (execRoles evs) \<subseteq> {Send}"
  by (auto simp: send_def io_bind_def io_then_def io_read_def io_return_def execShell_def
        logWarn_def logInfo_def emit_def io_when_def
      split: option.splits sum.splits prod.splits if_splits)

lemma maybe_send_sleeps:
  "io_when b (io_when c (send rt cfg idv)) w = (r, w', evs) \<Longrightarrow>
   sleepsOf evs = [] \<and> set (execRoles evs) \<subseteq> {Send}"
  using send_sleeps [of rt cfg idv w r w' evs]
  by (auto simp: io_when_def io_return_def split: if_splits)

lemma afterLoop_not_Healthy:
  "afterLoop rt cfg idv w = (Inr r, w', evs) \<Longrightarrow> r = Restarted"
proof (cases "paths cfg")
  case None
  then show "afterLoop rt cfg idv w = (Inr r, w', evs) \<Longrightarrow> r = Restarted"
    by (simp add: afterLoop_def io_apply io_bind_def buildCommand_def)
next
  case (Some pc)
  then have "paths cfg \<noteq> None" by simp
  from afterLoop_total [OF this, of rt idv w]
  show "afterLoop rt cfg idv w = (Inr r, w', evs) \<Longrightarrow> r = Restarted" by auto
qed

lemma attempts_healthy_now:
  assumes "i < length (waitSecondsOf cfg)"
    and "check rt cfg idv (elapse rt (waitSecondsOf cfg ! i * 1000) w) = (Inr True, w', cev)"
  shows "attempts rt cfg idv i w =
     (Inr True, w', Sleep (waitSecondsOf cfg ! i * 1000) # cev @ [LogInfo ''Heartbeat reply received.''])"
  using assms
  by (subst attempts.simps)
     (simp add: io_then_def io_bind_def sleep_def logInfo_def emit_def io_return_def)

lemma attempts_True:
  "attempts rt cfg idv i w = (Inr True, w', evs) \<Longrightarrow>
   \<exists>k pre. i \<le> k \<and> k < length (waitSecondsOf cfg)
     \<and> sleepsOf evs = map (\<lambda>s. s * 1000) (take (Suc k - i) (drop i (waitSecondsOf cfg)))
     \<and> length (filter (\<lambda>r. r = Check) (execRoles evs)) = Suc k - i
     \<and> set (execRoles evs) \<subseteq> {Send, Check, Probe}
     \<and> evs = pre @ [LogInfo ''Heartbeat reply received.'']"
proof (induction "length (waitSecondsOf cfg) - i" arbitrary: i w evs)
  case 0
  then have "\<not> i < length (waitSecondsOf cfg)" by simp
  with 0 show ?case
    by (subst (asm) attempts.simps) (simp add: io_return_def)
next
  case (Suc n)
  then have lt: "i < length (waitSecondsOf cfg)" by simp
  let ?ws = "waitSecondsOf cfg"
  let ?ms = "?ws ! i * 1000"
  let ?w1 = "elapse rt ?ms w"
  obtain r2 w2 e2 where c: "check rt cfg idv ?w1 = (r2, w2, e2)"
    by (cases "check rt cfg idv ?w1") auto
  have s2: "sleepsOf e2 = []" using c by (rule check_sleeps)
  have dr: "drop i ?ws = ?ws ! i # drop (Suc i) ?ws"
    using lt by (simp add: Cons_nth_drop_Suc)
  show ?case
  proof (cases r2)
    case (Inl e)
    with Suc.prems lt c show ?thesis
      by (subst (asm) attempts.simps) (simp add: io_then_def io_bind_def sleep_def)
  next
    case (Inr b)
    have rc: "execRoles e2 = [Check] \<or> execRoles e2 = [Check, Probe]"
      using c Inr by (auto dest: check_roles)
    show ?thesis
    proof (cases b)
      case True
      with Inr c lt have "attempts rt cfg idv i w =
          (Inr True, w2, Sleep ?ms # e2 @ [LogInfo ''Heartbeat reply received.''])"
        by (simp add: attempts_healthy_now)
      with Suc.prems have ev: "evs = Sleep ?ms # e2 @ [LogInfo ''Heartbeat reply received.'']"
        by simp
      have "sleepsOf evs = map (\<lambda>s. s * 1000) (take (Suc i - i) (drop i ?ws))"
        using ev s2 dr by simp
      moreover have "length (filter (\<lambda>r. r = Check) (execRoles evs)) = Suc i - i"
        using ev rc by auto
      moreover have "set (execRoles evs) \<subseteq> {Send, Check, Probe}"
        using ev rc by auto
      ultimately show ?thesis using lt ev
        by (intro exI [of _ i] exI [of _ "Sleep ?ms # e2"]) simp
    next
      case False
      obtain r3 w3 e3 where s:
        "io_when (int i < int (length ?ws) - 1)
           (io_when (truthy (sendCommand (hbOf cfg))) (send rt cfg idv)) w2 = (r3, w3, e3)"
        by (metis prod_cases3)
      have s3: "sleepsOf e3 = []" and rs3: "set (execRoles e3) \<subseteq> {Send}"
        using maybe_send_sleeps [OF s] by auto
      show ?thesis
      proof (cases r3)
        case (Inl e)
        with Suc.prems lt c Inr False s show ?thesis
          by (subst (asm) attempts.simps) (simp add: io_then_def io_bind_def sleep_def)
      next
        case r3: (Inr u)
        obtain r4 w4 e4 where a: "attempts rt cfg idv (i + 1) w3 = (r4, w4, e4)"
          by (metis prod_cases3)
        have "attempts rt cfg idv i w = (r4, w4, Sleep ?ms # e2 @ e3 @ e4)"
          using lt c Inr False s r3 a
          by (subst attempts.simps) (simp add: io_then_def io_bind_def sleep_def)
        with Suc.prems have r4: "r4 = Inr True" and w4: "w4 = w'"
          and ev: "evs = Sleep ?ms # e2 @ e3 @ e4" by auto
        have "n = length ?ws - (i + 1)" using Suc.hyps(2) by simp
        from Suc.hyps(1) [OF this, of w3 e4] a r4 w4 obtain k pre where
          k: "i + 1 \<le> k" "k < length ?ws"
          and sl: "sleepsOf e4 = map (\<lambda>s. s * 1000) (take (Suc k - (i + 1)) (drop (i + 1) ?ws))"
          and ck: "length (filter (\<lambda>r. r = Check) (execRoles e4)) = Suc k - (i + 1)"
          and rl: "set (execRoles e4) \<subseteq> {Send, Check, Probe}"
          and la: "e4 = pre @ [LogInfo ''Heartbeat reply received.'']"
          by auto
        have t: "take (Suc k - i) (drop i ?ws) = ?ws ! i # take (Suc k - (i + 1)) (drop (i + 1) ?ws)"
          using k dr by (simp add: Suc_diff_le)
        have "sleepsOf evs = map (\<lambda>s. s * 1000) (take (Suc k - i) (drop i ?ws))"
          using ev s2 s3 sl t by simp
        moreover have "length (filter (\<lambda>r. r = Check) (execRoles evs)) = Suc k - i"
        proof -
          have "filter (\<lambda>r. r = Check) (execRoles e3) = []"
            using rs3 by (auto simp: filter_empty_conv)
          then show ?thesis using ev rc ck k by auto
        qed
        moreover have "set (execRoles evs) \<subseteq> {Send, Check, Probe}"
          using ev rc rs3 rl by auto
        moreover have "evs = (Sleep ?ms # e2 @ e3 @ pre) @ [LogInfo ''Heartbeat reply received.'']"
          using ev la by simp
        ultimately show ?thesis using k
          by (intro exI [of _ k] exI [of _ "Sleep ?ms # e2 @ e3 @ pre"]) simp
      qed
    qed
  qed
qed

lemma cycle_Healthy:
  assumes "runHeartbeatOnce rt cfg idv w = (Inr Healthy, w', evs)"
  shows "\<exists>k pre. k < length (waitSecondsOf cfg)
     \<and> sleepsOf evs = map (\<lambda>s. s * 1000) (take (Suc k) (waitSecondsOf cfg))
     \<and> length (filter (\<lambda>r. r = Check) (execRoles evs)) = Suc k
     \<and> set (execRoles evs) \<subseteq> {Send, Check, Probe}
     \<and> evs = pre @ [LogInfo ''Heartbeat reply received.'']"
proof -
  have cc: "truthy (checkCommand (hbOf cfg))"
    using assms
    by (auto simp: runHeartbeatOnce_afterLoop io_then_def io_bind_def logWarn_def emit_def io_return_def
        split: if_splits)
  obtain r1 w1 e1 where s:
    "io_when True (io_when (truthy (sendCommand (hbOf cfg))) (send rt cfg idv)) w = (r1, w1, e1)"
    by (metis prod_cases3)
  have s1: "sleepsOf e1 = []" and rs1: "set (execRoles e1) \<subseteq> {Send}"
    using maybe_send_sleeps [OF s] by auto
  obtain r2 w2 e2 where a: "attempts rt cfg idv 0 w1 = (r2, w2, e2)"
    by (metis prod_cases3)
  obtain r3 w3 e3 where t: "afterLoop rt cfg idv w2 = (r3, w3, e3)"
    by (metis prod_cases3)
  have r1: "r1 = Inr ()" and r2: "r2 = Inr True" and w2: "w2 = w'" and ev: "evs = e1 @ e2"
    using assms cc s a t afterLoop_not_Healthy [of rt cfg idv w2 _ w3 e3]
    by (auto simp: runHeartbeatOnce_afterLoop io_then_def io_bind_def io_when_def io_return_def
        split: sum.splits if_splits)
  from attempts_True [of rt cfg idv 0 w1 w' e2] a r2 w2 obtain k pre where
    k: "k < length (waitSecondsOf cfg)"
    and sl: "sleepsOf e2 = map (\<lambda>s. s * 1000) (take (Suc k) (waitSecondsOf cfg))"
    and ck: "length (filter (\<lambda>r. r = Check) (execRoles e2)) = Suc k"
    and rl: "set (execRoles e2) \<subseteq> {Send, Check, Probe}"
    and la: "e2 = pre @ [LogInfo ''Heartbeat reply received.'']"
    by auto
  have "filter (\<lambda>r. r = Check) (execRoles e1) = []"
    using rs1 by (auto simp: filter_empty_conv)
  then show ?thesis using k sl ck rl la ev s1 rs1
    by (intro exI [of _ k] exI [of _ "e1 @ pre"]) auto
qed






section \<open>Lemmas: validation, push and version control\<close>

lemma validateConfig_schema_error_paths:
  assumes "validateConfig rt cfg w = Inl (Error (''Schema validation failed:'' @ rest))"
  shows "\<exists>p f. paths cfg = Some p \<and> resolvePathWithBase rt (repoConfig p) (configDirOf rt cfg) = Some f"
proof (cases "paths cfg")
  case None
  with assms show ?thesis by (simp add: validateConfig_def)
next
  case (Some p)
  show ?thesis
  proof (cases "resolvePathWithBase rt (repoConfig p) (configDirOf rt cfg)")
    case None
    with assms Some show ?thesis
      by (simp add: validateConfig_def readFile_def)
  next
    case (Some f)
    with \<open>paths cfg = Some p\<close> show ?thesis by simp
  qed
qed

lemma gitCommitIfChanged_commit:
  assumes "gitCommitIfChanged rt d fl m w = (r, w', evs)"
    and "Exec ro cwd c res \<in> set evs" and "startsWith c ''git commit''"
  shows "\<exists>st. Exec Git d ''git status --porcelain'' st \<in> set evs \<and> code st = Some 0
           \<and> reportsChange (stdout st) fl"
  using assms
  by (auto simp: gitCommitIfChanged_def io_apply io_bind_def failed_def startsWith_def
      split: if_splits)

lemma ensureGitRepo_execs:
  assumes "ensureGitRepo rt d a w = (r, w', evs)" and "Exec ro cwd c res \<in> set evs"
  shows "c = ''git init''"
  using assms
  by (auto simp: ensureGitRepo_def io_apply io_bind_def split: if_splits)

lemma commitStep_commit:
  assumes "commitStep rt cfg root rcp label w = (r, w', evs)"
    and "Exec ro cwd c res \<in> set evs" and "startsWith c ''git commit''"
  shows "gitEnabled cfg \<and>
     (\<exists>st. Exec Git root ''git status --porcelain'' st \<in> set evs \<and> code st = Some 0
           \<and> reportsChange (stdout st) [path_relative rt root rcp])"
proof -
  have en: "gitEnabled cfg"
    using assms by (auto simp: commitStep_def io_apply split: if_splits)
  obtain r1 w1 e1 where g: "ensureGitRepo rt root (gitAutoInit cfg) w = (r1, w1, e1)"
    by (metis prod_cases3)
  have n1: "Exec ro cwd c res \<notin> set e1"
    using ensureGitRepo_execs [OF g, of ro cwd c res] assms(3) by (auto simp: startsWith_def)
  show ?thesis
  proof (cases r1)
    case (Inl e)
    with assms en g n1 show ?thesis
      by (simp add: commitStep_def io_apply io_bind_def)
  next
    case (Inr ready)
    show ?thesis
    proof (cases ready)
      case False
      with assms en g n1 Inr show ?thesis
        by (simp add: commitStep_def io_apply io_bind_def)
    next
      case True
      obtain r2 w2 e2 where c: "gitCommitIfChanged rt root [path_relative rt root rcp]
          (label @ toISOString rt (now w1)) w1 = (r2, w2, e2)"
        by (metis prod_cases3)
      have ev: "evs = e1 @ e2"
        using assms(1) en g Inr True c
        by (simp add: commitStep_def io_apply io_bind_def)
      with n1 assms(2) have "Exec ro cwd c res \<in> set e2" by simp
      from gitCommitIfChanged_commit [OF c this assms(3)] ev en show ?thesis by auto
    qed
  qed
qed

lemma atomicCopy_silent:
  "atomicCopy rt s d w = (r, w', evs) \<Longrightarrow> evs = []"
  by (auto simp: atomicCopy_def io_apply io_bind_def ensureDir_def copyFile_def rename_def Let_def
      split: option.splits)

lemma syncPush_commit:
  assumes "syncPush rt cfg w = (r, w', evs)"
    and "Exec ro cwd c res \<in> set evs" and "startsWith c ''git commit''"
  shows "gitEnabled cfg \<and>
     (\<exists>p f st. paths cfg = Some p
        \<and> resolvePathWithBase rt (repoConfig p) (configDirOf rt cfg) = Some f
        \<and> Exec Git (path_dirname rt f) ''git status --porcelain'' st \<in> set evs
        \<and> code st = Some 0
        \<and> reportsChange (stdout st) [path_relative rt (path_dirname rt f) f])"
proof (cases "paths cfg")
  case None
  with assms show ?thesis by (simp add: syncPush_def io_apply)
next
  case (Some p)
  note p = this
  show ?thesis
  proof (cases "resolvePathWithBase rt (repoConfig p) (configDirOf rt cfg)")
    case None
    with assms p show ?thesis by (simp add: syncPush_def io_apply)
  next
    case (Some f)
    note f = this
    let ?live = "resolvePathWithBase rt (liveConfig p) (configDirOf rt cfg)"
    show ?thesis
    proof (cases "validateConfig rt cfg w")
      case (Inl e)
      with assms p f show ?thesis
        by (simp add: syncPush_def io_apply io_bind_def Let_def)
    next
      case (Inr v)
      obtain r1 w1 e1 where a: "atomicCopy rt (Some f) ?live w = (r1, w1, e1)"
        by (metis prod_cases3)
      have e1: "e1 = []" using a by (rule atomicCopy_silent)
      show ?thesis
      proof (cases r1)
        case (Inl e)
        with assms p f Inr a e1 show ?thesis
          by (simp add: syncPush_def io_apply io_bind_def Let_def)
      next
        case r1: (Inr u)
        obtain r2 w2 e2 where c:
          "commitStep rt cfg (path_dirname rt f) f ''sync push '' w1 = (r2, w2, e2)"
          by (metis prod_cases3)
        have ev: "evs = LogInfo (''Pushed repo config -> live: '' @ String ?live) # e2"
          using assms(1) p f Inr a e1 r1 c
          by (simp add: syncPush_def io_apply io_bind_def Let_def)
        with assms(2) have "Exec ro cwd c res \<in> set e2" by simp
        from commitStep_commit [OF c this assms(3)] ev p f show ?thesis by auto
      qed
    qed
  qed
qed

lemma copyFile_silent: "copyFile s d w = (r, w', evs) \<Longrightarrow> evs = []"
  by (auto simp: copyFile_def split: option.splits)

lemma syncPull_commit:
  assumes "syncPull rt cfg w = (r, w', evs)"
    and "Exec ro cwd c res \<in> set evs" and "startsWith c ''git commit''"
  shows "gitEnabled cfg \<and>
     (\<exists>p f st. paths cfg = Some p
        \<and> resolvePathWithBase rt (repoConfig p) (configDirOf rt cfg) = Some f
        \<and> Exec Git (path_dirname rt f) ''git status --porcelain'' st \<in> set evs
        \<and> code st = Some 0
        \<and> reportsChange (stdout st) [path_relative rt (path_dirname rt f) f])"
proof (cases "paths cfg")
  case None
  with assms show ?thesis by (simp add: syncPull_def io_apply)
next
  case (Some p)
  note p = this
  show ?thesis
  proof (cases "resolvePathWithBase rt (repoConfig p) (configDirOf rt cfg)")
    case None
    with assms p show ?thesis by (simp add: syncPull_def io_apply)
  next
    case (Some f)
    note f = this
    let ?live = "resolvePathWithBase rt (liveConfig p) (configDirOf rt cfg)"
    let ?w0 = "w\<lparr>dirs := insert (path_dirname rt f) (dirs w)\<rparr>"
    show ?thesis
    proof (cases "existsSync ?live w")
      case False
      with assms p f show ?thesis
        by (simp add: syncPull_def io_apply io_bind_def Let_def)
    next
      case True
      obtain r1 w1 e1 where a: "copyFile ?live (Some f) ?w0 = (r1, w1, e1)"
        by (metis prod_cases3)
      have e1: "e1 = []" using a by (rule copyFile_silent)
      show ?thesis
      proof (cases r1)
        case (Inl e)
        with assms p f True a e1 show ?thesis
          by (simp add: syncPull_def io_apply io_bind_def Let_def ensureDir_def)
      next
        case r1: (Inr u)
        obtain r2 w2 e2 where c:
          "commitStep rt cfg (path_dirname rt f) f ''sync pull '' w1 = (r2, w2, e2)"
          by (metis prod_cases3)
        have ev: "evs = LogInfo (''Pulled live config -> repo: '' @ f) # e2"
          using assms(1) p f True a e1 r1 c
          by (simp add: syncPull_def io_apply io_bind_def Let_def ensureDir_def)
        with assms(2) have "Exec ro cwd c res \<in> set e2" by simp
        from commitStep_commit [OF c this assms(3)] ev p f show ?thesis by auto
      qed
    qed
  qed
qed

lemma reportsChange_line:
  "reportsChange out [file] \<longleftrightarrow> (\<exists>line \<in> set (statusLines out). includesStr line file)"
  by (simp add: reportsChange_def list_ex_iff)



section \<open>Lemmas: substitution in templates\<close>

lemma plainVar_pair:
  "plainVar (k, v) \<longleftrightarrow>
     CHR ''{'' \<notin> set k \<and> CHR ''}'' \<notin> set k \<and>
     CHR ''{'' \<notin> set (String v) \<and> CHR ''$'' \<notin> set (String v)"
  by (simp add: plainVar_def)

lemma getSubstitution_plain:
  "CHR ''$'' \<notin> set rep \<Longrightarrow> getSubstitution m b a rep = rep"
  by (induction m b a rep rule: getSubstitution.induct) auto

lemma replaceScan_skip:
  "CHR ''{'' \<notin> set s \<Longrightarrow>
   replaceScan (CHR ''{'' # pat) rep before (s @ t) = s @ replaceScan (CHR ''{'' # pat) rep (before @ s) t"
proof (induction s arbitrary: before)
  case Nil
  show ?case by simp
next
  case (Cons c cs)
  then have c: "c \<noteq> CHR ''{''" by auto
  have "replaceScan (CHR ''{'' # pat) rep before ((c # cs) @ t)
      = c # replaceScan (CHR ''{'' # pat) rep (before @ [c]) (cs @ t)"
    by (subst replaceScan.simps) (simp add: startsWith_def c)
  with Cons show ?case by simp
qed

lemma replaceScan_match:
  "pat \<noteq> [] \<Longrightarrow> CHR ''$'' \<notin> set rep \<Longrightarrow>
   replaceScan pat rep before (pat @ t) = rep @ replaceScan pat rep (before @ pat) t"
  by (subst replaceScan.simps) (simp add: startsWith_def getSubstitution_plain)

lemma startsWith_append: "startsWith (p @ t) p"
  by (simp add: startsWith_def)

lemma startsWith_key:
  assumes "CHR ''}'' \<notin> set k" "CHR ''}'' \<notin> set key"
  shows "startsWith (k @ CHR ''}'' # t) (key @ ''}'') \<longleftrightarrow> k = key"
  using assms
proof (induction k arbitrary: key)
  case Nil
  then show ?case by (cases key) (auto simp: startsWith_def)
next
  case (Cons c cs)
  show ?case
  proof (cases key)
    case Nil
    with Cons.prems show ?thesis by (auto simp: startsWith_def)
  next
    case (Cons d ds)
    with Cons.prems Cons.IH [of ds] show ?thesis by (auto simp: startsWith_def)
  qed
qed

lemma fillHole_simps [simp]:
  "fillHole key v (Lit s) = Lit s"
  "fillHole key v (Hole k) = (if k = key then Lit v else Hole k)"
  by (simp_all add: fillHole_def)

lemma replaceScan_pieces:
  assumes "\<forall>p \<in> set ps. plainPiece p" "CHR ''}'' \<notin> set key" "CHR ''$'' \<notin> set v"
  shows "replaceScan (''{'' @ key @ ''}'') v before (renderTemplate ps)
           = renderTemplate (map (fillHole key v) ps)"
  using assms(1)
proof (induction ps arbitrary: before)
  case Nil
  show ?case by (subst replaceScan.simps) (simp add: renderTemplate_def startsWith_def)
next
  case (Cons p ps)
  then have IH: "\<And>b. replaceScan (''{'' @ key @ ''}'') v b (renderTemplate ps)
           = renderTemplate (map (fillHole key v) ps)"
    by simp
  show ?case
  proof (cases p)
    case (Lit s)
    with Cons.prems have "CHR ''{'' \<notin> set s" by simp
    from replaceScan_skip [OF this, of "key @ ''}''" v before "renderTemplate ps"] IH Lit
    show ?thesis by (simp add: renderTemplate_def)
  next
    case (Hole k)
    with Cons.prems have k: "CHR ''{'' \<notin> set k" "CHR ''}'' \<notin> set k" by simp_all
    show ?thesis
    proof (cases "k = key")
      case True
      have "replaceScan (CHR ''{'' # key @ ''}'') v before ((CHR ''{'' # key @ ''}'') @ renderTemplate ps)
          = v @ replaceScan (CHR ''{'' # key @ ''}'') v (before @ (CHR ''{'' # key @ ''}'')) (renderTemplate ps)"
        by (rule replaceScan_match) (simp_all add: assms(3))
      with IH Hole True show ?thesis by (simp add: renderTemplate_def)
    next
      case False
      have n: "\<not> startsWith (CHR ''{'' # k @ CHR ''}'' # renderTemplate ps) (CHR ''{'' # key @ ''}'')"
        using startsWith_key [OF k(2) assms(2), of "renderTemplate ps"] False
        by (simp add: startsWith_def)
      have "CHR ''{'' \<notin> set (k @ ''}'')" using k by simp
      from replaceScan_skip [OF this, of "key @ ''}''" v "before @ ''{''" "renderTemplate ps"]
      have s: "replaceScan (CHR ''{'' # key @ ''}'') v (before @ ''{'') (k @ CHR ''}'' # renderTemplate ps)
          = k @ CHR ''}'' # replaceScan (CHR ''{'' # key @ ''}'') v (before @ ''{'' @ k @ ''}'') (renderTemplate ps)"
        by simp
      have "replaceScan (CHR ''{'' # key @ ''}'') v before (CHR ''{'' # k @ CHR ''}'' # renderTemplate ps)
          = CHR ''{'' # replaceScan (CHR ''{'' # key @ ''}'') v (before @ ''{'') (k @ CHR ''}'' # renderTemplate ps)"
        using n by (subst replaceScan.simps) simp
      with s IH Hole False show ?thesis by (simp add: renderTemplate_def)
    qed
  qed
qed


lemma fillPiece_step:
  "fillPiece vars (fillHole key (String v) p) = fillPiece ((key, v) # vars) p"
  by (cases p) auto

lemma plainPiece_fillHole:
  "plainPiece p \<Longrightarrow> CHR ''{'' \<notin> set v \<Longrightarrow> plainPiece (fillHole key v p)"
  by (cases p) auto

lemma formatCmd_pieces:
  assumes "list_all plainPiece ps" "list_all plainVar vars"
  shows "formatCmd (renderTemplate ps) vars = fillTemplate_spec vars ps"
  using assms
proof (induction vars arbitrary: ps)
  case Nil
  have "fillPiece [] = renderPiece"
  proof
    fix p show "fillPiece [] p = renderPiece p" by (cases p) simp_all
  qed
  then show ?case by (simp add: fillTemplate_spec_def renderTemplate_def)
next
  case (Cons kv vars)
  obtain key v where kv: "kv = (key, v)" by (cases kv)
  from Cons.prems kv have pv: "CHR ''}'' \<notin> set key" "CHR ''{'' \<notin> set (String v)"
    "CHR ''$'' \<notin> set (String v)" and rest: "list_all plainVar vars"
    by (simp_all add: plainVar_pair)
  from Cons.prems have pp: "\<forall>p \<in> set ps. plainPiece p"
    by (simp add: list_all_iff)
  let ?ps = "map (fillHole key (String v)) ps"
  have r: "replaceAll (renderTemplate ps) (''{'' @ key @ ''}'') (String v) = renderTemplate ?ps"
    using replaceScan_pieces [OF pp pv(1) pv(3), of "[]"] by (simp add: replaceAll_def)
  have "list_all plainPiece ?ps"
    using pp pv(2) by (simp add: list_all_iff plainPiece_fillHole)
  from Cons.IH [OF this rest] have "formatCmd (renderTemplate ?ps) vars = fillTemplate_spec vars ?ps" .
  moreover have "fillTemplate_spec vars ?ps = fillTemplate_spec ((key, v) # vars) ps"
    by (simp add: fillTemplate_spec_def fillPiece_step comp_def)
  ultimately show ?case using kv r by simp
qed



section \<open>Lemmas: the heartbeat loop\<close>

lemma loopRun_snoc: "loopRun (evs @ [e]) = loopStep (loopRun evs) e"
  by (simp add: loopRun_def)

lemma loopRun_invariant:
  "inflight (loopRun evs) = (if running (loopRun evs) then 1 else 0) \<and>
   begun (loopRun evs) \<le> length (filter (\<lambda>e. e = TickFired) evs)"
proof (induction evs rule: rev_induct)
  case Nil
  show ?case by (simp add: loopRun_def)
next
  case (snoc e evs)
  then show ?case
    by (cases e) (auto simp: loopRun_snoc tickEnter_def tickLeave_def split: if_splits)
qed

lemma first_cycle_error_exits:
  assumes "runHeartbeatOnce rt cfg idv w = (Inl e, w1, t1)"
  shows "mainHeartbeat rt cfg idv w = (Exited 1, w1, t1 @ [LogError (errorText e)])"
  using assms
  by (simp add: mainHeartbeat_def runHeartbeatLoop_def tick_def tickEnter_def)



section \<open>Lemmas: runs of the concrete runtime\<close>

lemmas io_defs = io_bind_def io_then_def io_read_def io_return_def io_when_def execShell_def
  logWarn_def logInfo_def emit_def sleep_def

lemma example_hb [simp]:
  "hbOf exampleConfig = \<lparr>intervalMinutes = Some 5, waitSeconds = Some [30, 40, 50],
         checkCommand = Some ''check'', sendCommand = None,
         restartCommand = Some ''restart'', notifyCommand = Some ''notify'',
         notifyOnRestart = True,
         agentProbe = Some \<lparr>enabled = True, fallbackAgentId = Some ''main'',
                             command = Some ''probe''\<rparr>,
         target = None\<rparr>"
  "paths exampleConfig = Some examplePaths"
  by (simp_all add: exampleConfig_def hbOf_def)

lemma flaky_check_1:
  "check (exampleRuntime (flakyShell 1)) exampleConfig ''42'' (countingWorld\<lparr>now := 30000\<rparr>) =
    (Inr False, countingWorld\<lparr>now := 30000, extern := 1\<rparr>,
     [Exec Check ''/srv'' ''check'' \<lparr>code = Some 1, stdout = [], stderr = ''down''\<rparr>])"
  by (simp add: check_def io_defs buildCommand_no_brace [where p = examplePaths]
      exampleRuntime_def flakyShell_def failed_def countingWorld_def)

lemma flaky_check_2:
  "check (exampleRuntime (flakyShell 1)) exampleConfig ''42'' (countingWorld\<lparr>now := 70000, extern := 1\<rparr>) =
    (Inr True, countingWorld\<lparr>now := 70000, extern := 3\<rparr>,
     [Exec Check ''/srv'' ''check'' \<lparr>code = Some 0, stdout = [], stderr = ''down''\<rparr>,
      LogInfo ''Agent probe: probe'',
      Exec Probe ''/srv'' ''probe'' \<lparr>code = Some 0, stdout = [], stderr = ''down''\<rparr>])"
  by (simp add: check_def io_defs buildCommand_no_brace [where p = examplePaths]
      exampleRuntime_def flakyShell_def failed_def countingWorld_def
      agentProbeEnabled_def agentProbeCommand_def truthy_def)

lemma flaky_cycle:
  "runHeartbeatOnce (exampleRuntime (flakyShell 1)) exampleConfig ''42'' countingWorld =
    (Inr Healthy, countingWorld\<lparr>now := 70000, extern := 3\<rparr>,
     [Sleep 30000,
      Exec Check ''/srv'' ''check'' \<lparr>code = Some 1, stdout = [], stderr = ''down''\<rparr>,
      Sleep 40000,
      Exec Check ''/srv'' ''check'' \<lparr>code = Some 0, stdout = [], stderr = ''down''\<rparr>,
      LogInfo ''Agent probe: probe'',
      Exec Probe ''/srv'' ''probe'' \<lparr>code = Some 0, stdout = [], stderr = ''down''\<rparr>,
      LogInfo ''Heartbeat reply received.''])"
proof -
  have e0: "elapse (exampleRuntime (flakyShell 1)) 30000 countingWorld = countingWorld\<lparr>now := 30000\<rparr>"
    by (simp add: exampleRuntime_def countingWorld_def)
  have e1: "elapse (exampleRuntime (flakyShell 1)) 40000 (countingWorld\<lparr>now := 30000, extern := 1\<rparr>)
      = countingWorld\<lparr>now := 70000, extern := 1\<rparr>"
    by (simp add: exampleRuntime_def countingWorld_def)
  have ws: "waitSecondsOf exampleConfig = [30, 40, 50]"
    by (simp add: waitSecondsOf_def)
  have a1: "attempts (exampleRuntime (flakyShell 1)) exampleConfig ''42'' (Suc 0)
      (countingWorld\<lparr>now := 30000, extern := 1\<rparr>) =
     (Inr True, countingWorld\<lparr>now := 70000, extern := 3\<rparr>,
      [Sleep 40000,
      Exec Check ''/srv'' ''check'' \<lparr>code = Some 0, stdout = [], stderr = ''down''\<rparr>,
      LogInfo ''Agent probe: probe'',
      Exec Probe ''/srv'' ''probe'' \<lparr>code = Some 0, stdout = [], stderr = ''down''\<rparr>,
      LogInfo ''Heartbeat reply received.''])"
    using attempts_healthy_now [of "Suc 0" exampleConfig "exampleRuntime (flakyShell 1)" "''42''"
        "countingWorld\<lparr>now := 30000, extern := 1\<rparr>"]
    by (simp add: ws e1 flaky_check_2)
  have a0: "attempts (exampleRuntime (flakyShell 1)) exampleConfig ''42'' 0 countingWorld =
     (Inr True, countingWorld\<lparr>now := 70000, extern := 3\<rparr>,
      [Sleep 30000,
      Exec Check ''/srv'' ''check'' \<lparr>code = Some 1, stdout = [], stderr = ''down''\<rparr>,
      Sleep 40000,
      Exec Check ''/srv'' ''check'' \<lparr>code = Some 0, stdout = [], stderr = ''down''\<rparr>,
      LogInfo ''Agent probe: probe'',
      Exec Probe ''/srv'' ''probe'' \<lparr>code = Some 0, stdout = [], stderr = ''down''\<rparr>,
      LogInfo ''Heartbeat reply received.''])"
    by (subst attempts.simps)
       (simp add: ws io_then_def io_bind_def sleep_def e0 flaky_check_1 io_when_def truthy_def
          io_return_def a1)
  show ?thesis
    by (simp add: runHeartbeatOnce_cycleFrom cycleFrom_def truthy_def io_then_def io_bind_def
        io_when_def io_return_def a0)
qed

lemma exampleRuntime_sel:
  "spawnShell (exampleRuntime sh) = sh"
  "elapse (exampleRuntime sh) = (\<lambda>ms w. w\<lparr>now := now w + nat ms\<rparr>)"
  "CWD (exampleRuntime sh) = ''/srv''"
  "homedir (exampleRuntime sh) = ''/home/op''"
  "tmpdir (exampleRuntime sh) = ''/tmp''"
  "path_join (exampleRuntime sh) = joinWith ''/''"
  "path_dirname (exampleRuntime sh) = dirnamePosix"
  "path_basename (exampleRuntime sh) = basenamePosix"
  "path_isAbsolute (exampleRuntime sh) = (\<lambda>p. startsWith p ''/'')"
  "path_resolve (exampleRuntime sh) = (\<lambda>base p. joinWith ''/'' [base, p])"
  "path_relative (exampleRuntime sh) = (\<lambda>from to. drop (length from + 1) to)"
  "toISOString (exampleRuntime sh) = (\<lambda>n. ''2026-01-01T00:00:00.000Z'')"
  "jsonParse (exampleRuntime sh) =
     (\<lambda>raw. if startsWith raw ''{'' then Inr raw else Inl ''Unexpected token'')"
  "parseHealthCache (exampleRuntime sh) = (\<lambda>raw. None)"
  "ajvCompile (exampleRuntime sh) = (\<lambda>schema. Inr (\<lambda>j.
        if j = schema then \<lparr>ok = True, errors = None\<rparr>
        else \<lparr>ok = False, errors = Some exampleErrors\<rparr>))"
  by (simp_all add: exampleRuntime_def)

lemma example_paths [simp]:
  "paths exampleConfig = Some examplePaths"
  "configPath exampleConfig = Some ''/srv/warden.config.json''"
  by (simp_all add: exampleConfig_def)

lemma example_resolve [simp]:
  "resolvePathWithBase (exampleRuntime sh) (repoConfig examplePaths) d = Some ''/srv/config/openclaw.json''"
  "resolvePathWithBase (exampleRuntime sh) (liveConfig examplePaths) d = Some ''/home/op/.openclaw/openclaw.json''"
  "resolvePathWithBase (exampleRuntime sh) (schemaFile examplePaths) d = Some ''/srv/state/schema.json''"
  by (simp_all add: resolvePathWithBase_def examplePaths_def expandHome_def startsWith_def
      exampleRuntime_sel)

lemma example_validate_bad:
  "validateConfig (exampleRuntime sh) exampleConfig (syncWorld ''{bad}'') = Inl (Error exampleReport)"
  by (simp add: validateConfig_def readFile_def syncWorld_def loadSchema_def existsSync_def
      readJson_def exampleReport_def exampleErrors_def errorLine_def orElse_def
      exampleRuntime_sel startsWith_def Let_def)

lemma example_git [simp]: "gitEnabled exampleConfig" "gitAutoInit exampleConfig"
  by (simp_all add: gitEnabled_def gitAutoInit_def exampleConfig_def)

lemma example_validate_good:
  "validateConfig (exampleRuntime sh) exampleConfig (syncWorld ''{schema}'') = Inr True"
  by (simp add: validateConfig_def readFile_def syncWorld_def loadSchema_def existsSync_def
      readJson_def exampleRuntime_sel startsWith_def Let_def)

lemma atomicCopy_ok:
  assumes "files w s = Some content"
  shows "\<exists>w1. atomicCopy rt (Some s) (Some d) w = (Inr (), w1, []) \<and> dirs w \<subseteq> dirs w1"
  using assms
  by (auto simp: atomicCopy_def io_apply io_bind_def Let_def ensureDir_def copyFile_def rename_def)

lemma sibling_commitStep:
  assumes "''/srv/config/.git'' \<in> dirs w1"
  shows "commitStep pushRuntime exampleConfig ''/srv/config'' ''/srv/config/openclaw.json''
           ''sync push '' w1 =
     (Inr (), w1,
      [Exec Git ''/srv/config'' ''git status --porcelain''
        \<lparr>code = Some 0, stdout = ''A  openclaw.json.bak'' @ [CHR 0x0A], stderr = []\<rparr>,
      Exec Git ''/srv/config'' (''git add '' @ [CHR 0x22] @ ''openclaw.json'' @ [CHR 0x22])
        \<lparr>code = Some 0, stdout = [], stderr = []\<rparr>,
      Exec Git ''/srv/config''
        (''git commit -m '' @ [CHR 0x22] @ ''sync push 2026-01-01T00:00:00.000Z'' @ [CHR 0x22])
        \<lparr>code = Some 0, stdout = [], stderr = []\<rparr>])"
  using assms
  by (simp add: pushRuntime_def io_apply io_bind_def commitStep_def ensureGitRepo_def
      gitCommitIfChanged_def reportsChange_def statusLines_def exampleRuntime_sel
      stagedSiblingShell_def failed_def existsSync_def startsWith_def)

lemma push_sibling_events:
  "fst (syncPush pushRuntime exampleConfig (syncWorld ''{schema}'')) = Inr () \<and>
   snd (snd (syncPush pushRuntime exampleConfig (syncWorld ''{schema}''))) =
     [LogInfo ''Pushed repo config -> live: /home/op/.openclaw/openclaw.json'',
      Exec Git ''/srv/config'' ''git status --porcelain''
        \<lparr>code = Some 0, stdout = ''A  openclaw.json.bak'' @ [CHR 0x0A], stderr = []\<rparr>,
      Exec Git ''/srv/config'' (''git add '' @ [CHR 0x22] @ ''openclaw.json'' @ [CHR 0x22])
        \<lparr>code = Some 0, stdout = [], stderr = []\<rparr>,
      Exec Git ''/srv/config''
        (''git commit -m '' @ [CHR 0x22] @ ''sync push 2026-01-01T00:00:00.000Z'' @ [CHR 0x22])
        \<lparr>code = Some 0, stdout = [], stderr = []\<rparr>]"
proof -
  have f: "files (syncWorld ''{schema}'') ''/srv/config/openclaw.json'' = Some ''{schema}''"
    by (simp add: syncWorld_def)
  from atomicCopy_ok [OF f, of pushRuntime "''/home/op/.openclaw/openclaw.json''"]
  obtain w1 where a: "atomicCopy pushRuntime (Some ''/srv/config/openclaw.json'')
      (Some ''/home/op/.openclaw/openclaw.json'') (syncWorld ''{schema}'') = (Inr (), w1, [])"
    and d: "dirs (syncWorld ''{schema}'') \<subseteq> dirs w1"
    by blast
  have "''/srv/config/.git'' \<in> dirs w1"
    using d by (auto simp: syncWorld_def)
  note c = sibling_commitStep [OF this]
  have v: "validateConfig pushRuntime exampleConfig (syncWorld ''{schema}'') = Inr True"
    by (simp add: pushRuntime_def example_validate_good)
  have r: "resolvePathWithBase pushRuntime (repoConfig examplePaths) (configDirOf pushRuntime exampleConfig)
      = Some ''/srv/config/openclaw.json''"
    "resolvePathWithBase pushRuntime (liveConfig examplePaths) (configDirOf pushRuntime exampleConfig)
      = Some ''/home/op/.openclaw/openclaw.json''"
    by (simp_all add: pushRuntime_def)
  have dn: "path_dirname pushRuntime ''/srv/config/openclaw.json'' = ''/srv/config''"
    by (simp add: pushRuntime_def exampleRuntime_sel dirnamePosix_def)
  show ?thesis
    by (simp add: syncPush_def r dn v a c io_apply io_bind_def Let_def String_def)
qed


section \<open>The claims\<close>




text \<open>C2: when the check of attempt \<open>i\<close> returns healthy (check and, when it applies,
  probe), the cycle ends there: what remains of it is the wait of attempt \<open>i\<close>, the
  events of that check and the log line, with no further wait, send, check, restart or
  notification. And every cycle that ends healthy has consumed exactly the first
  \<open>k + 1\<close> wait entries for some \<open>k\<close>, has run \<open>k + 1\<close> checks, and has run
  neither the restart nor the notify command.\<close>

theorem healthy_attempt_ends_cycle:
  "(i < length (waitSecondsOf cfg) \<longrightarrow>
    check rt cfg idv (elapse rt (waitSecondsOf cfg ! i * 1000) w) = (Inr True, w', cev) \<longrightarrow>
      cycleFrom rt cfg idv i w =
        (Inr Healthy, w',
         Sleep (waitSecondsOf cfg ! i * 1000) # cev @ [LogInfo ''Heartbeat reply received.''])) \<and>
   (runHeartbeatOnce rt cfg idv w0 = (Inr Healthy, w2, tr) \<longrightarrow>
      (\<exists>k pre. k < length (waitSecondsOf cfg)
         \<and> sleepsOf tr = map (\<lambda>s. s * 1000) (take (Suc k) (waitSecondsOf cfg))
         \<and> length (filter (\<lambda>r. r = Check) (execRoles tr)) = Suc k
         \<and> set (execRoles tr) \<subseteq> {Send, Check, Probe}
         \<and> tr = pre @ [LogInfo ''Heartbeat reply received.'']))"
proof (intro conjI impI)
  assume "i < length (waitSecondsOf cfg)"
    and "check rt cfg idv (elapse rt (waitSecondsOf cfg ! i * 1000) w) = (Inr True, w', cev)"
  then show "cycleFrom rt cfg idv i w =
        (Inr Healthy, w',
         Sleep (waitSecondsOf cfg ! i * 1000) # cev @ [LogInfo ''Heartbeat reply received.''])"
    by (simp add: cycleFrom_def io_bind_def attempts_healthy_now io_return_def)
next
  assume "runHeartbeatOnce rt cfg idv w0 = (Inr Healthy, w2, tr)"
  then show "\<exists>k pre. k < length (waitSecondsOf cfg)
         \<and> sleepsOf tr = map (\<lambda>s. s * 1000) (take (Suc k) (waitSecondsOf cfg))
         \<and> length (filter (\<lambda>r. r = Check) (execRoles tr)) = Suc k
         \<and> set (execRoles tr) \<subseteq> {Send, Check, Probe}
         \<and> tr = pre @ [LogInfo ''Heartbeat reply received.'']"
    by (rule cycle_Healthy)
qed

text \<open>An instance: the first command of the shell exits 1 and the later ones exit 0, so
  the first check fails and the second attempt is healthy.\<close>

theorem healthy_attempt_ends_cycle_witness:
  "Suc 0 < length (waitSecondsOf exampleConfig) \<and>
   check (exampleRuntime (flakyShell 1)) exampleConfig ''42''
     (elapse (exampleRuntime (flakyShell 1)) (waitSecondsOf exampleConfig ! Suc 0 * 1000)
        (countingWorld\<lparr>now := 30000, extern := 1\<rparr>)) =
    (Inr True, countingWorld\<lparr>now := 70000, extern := 3\<rparr>,
     [Exec Check ''/srv'' ''check'' \<lparr>code = Some 0, stdout = [], stderr = ''down''\<rparr>,
      LogInfo ''Agent probe: probe'',
      Exec Probe ''/srv'' ''probe'' \<lparr>code = Some 0, stdout = [], stderr = ''down''\<rparr>]) \<and>
   cycleFrom (exampleRuntime (flakyShell 1)) exampleConfig ''42'' (Suc 0)
       (countingWorld\<lparr>now := 30000, extern := 1\<rparr>) =
    (Inr Healthy, countingWorld\<lparr>now := 70000, extern := 3\<rparr>,
     [Sleep 40000,
      Exec Check ''/srv'' ''check'' \<lparr>code = Some 0, stdout = [], stderr = ''down''\<rparr>,
      LogInfo ''Agent probe: probe'',
      Exec Probe ''/srv'' ''probe'' \<lparr>code = Some 0, stdout = [], stderr = ''down''\<rparr>,
      LogInfo ''Heartbeat reply received.'']) \<and>
   (\<exists>w2 tr.
      runHeartbeatOnce (exampleRuntime (flakyShell 1)) exampleConfig ''42'' countingWorld =
        (Inr Healthy, w2, tr) \<and>
      (\<exists>k pre. k < length (waitSecondsOf exampleConfig)
         \<and> sleepsOf tr = map (\<lambda>s. s * 1000) (take (Suc k) (waitSecondsOf exampleConfig))
         \<and> length (filter (\<lambda>r. r = Check) (execRoles tr)) = Suc k
         \<and> set (execRoles tr) \<subseteq> {Send, Check, Probe}
         \<and> tr = pre @ [LogInfo ''Heartbeat reply received.'']))"
proof -
  have ws: "waitSecondsOf exampleConfig = [30, 40, 50]"
    by (simp add: waitSecondsOf_def)
  have lt: "Suc 0 < length (waitSecondsOf exampleConfig)"
    by (simp add: ws)
  have c: "check (exampleRuntime (flakyShell 1)) exampleConfig ''42''
     (elapse (exampleRuntime (flakyShell 1)) (waitSecondsOf exampleConfig ! Suc 0 * 1000)
        (countingWorld\<lparr>now := 30000, extern := 1\<rparr>)) =
    (Inr True, countingWorld\<lparr>now := 70000, extern := 3\<rparr>,
     [Exec Check ''/srv'' ''check'' \<lparr>code = Some 0, stdout = [], stderr = ''down''\<rparr>,
      LogInfo ''Agent probe: probe'',
      Exec Probe ''/srv'' ''probe'' \<lparr>code = Some 0, stdout = [], stderr = ''down''\<rparr>])"
  proof -
    have "elapse (exampleRuntime (flakyShell 1)) (waitSecondsOf exampleConfig ! Suc 0 * 1000)
        (countingWorld\<lparr>now := 30000, extern := 1\<rparr>) = countingWorld\<lparr>now := 70000, extern := 1\<rparr>"
      by (simp add: ws exampleRuntime_def countingWorld_def)
    then show ?thesis by (simp add: flaky_check_2)
  qed
  note r = flaky_cycle
  note t = healthy_attempt_ends_cycle [of "Suc 0" exampleConfig "exampleRuntime (flakyShell 1)"
      "''42''" "countingWorld\<lparr>now := 30000, extern := 1\<rparr>" _ _ countingWorld]
  have a: "cycleFrom (exampleRuntime (flakyShell 1)) exampleConfig ''42'' (Suc 0)
       (countingWorld\<lparr>now := 30000, extern := 1\<rparr>) =
    (Inr Healthy, countingWorld\<lparr>now := 70000, extern := 3\<rparr>,
     [Sleep 40000,
      Exec Check ''/srv'' ''check'' \<lparr>code = Some 0, stdout = [], stderr = ''down''\<rparr>,
      LogInfo ''Agent probe: probe'',
      Exec Probe ''/srv'' ''probe'' \<lparr>code = Some 0, stdout = [], stderr = ''down''\<rparr>,
      LogInfo ''Heartbeat reply received.''])"
    using t [THEN conjunct1, rule_format, OF lt c] by (simp add: ws)
  from t [THEN conjunct2, rule_format, OF r] r lt c a
  show ?thesis by blast
qed


text \<open>C3: in an attempt that returns a verdict, the first event is the check command;
  the probe command runs only if the check exited 0 and the agent probe is enabled; the
  verdict is healthy iff the check exited 0 and, when the probe applies (enabled, with a
  command), the probe exited 0 too; and when the probe is enabled with no command, a
  check that exits 0 is healthy and the only other event is the warning.\<close>

theorem probe_gating:
  assumes "check rt cfg idv w = (Inr healthy, w', evs)"
  shows "\<exists>cmd res rest.
      buildCommand rt (checkCommand (hbOf cfg)) cfg [(''id'', Some idv)] w = Inr cmd
      \<and> evs = Exec Check (CWD rt) cmd res # rest
      \<and> Check \<notin> set (execRoles rest)
      \<and> (Probe \<in> set (execRoles rest) \<longrightarrow> code res = Some 0 \<and> agentProbeEnabled cfg)
      \<and> (healthy \<longleftrightarrow>
           code res = Some 0 \<and>
           (agentProbeEnabled cfg \<and> truthy (agentProbeCommand cfg) \<longrightarrow>
              (\<exists>pcmd pres. Exec Probe (CWD rt) pcmd pres \<in> set rest \<and> code pres = Some 0)))
      \<and> (code res = Some 0 \<and> agentProbeEnabled cfg \<and> \<not> truthy (agentProbeCommand cfg) \<longrightarrow>
           healthy \<and>
           rest = [LogWarn ''agentProbe enabled but command not configured; skipping probe.''])"
  using assms
  by (auto simp: check_def io_bind_def io_then_def io_read_def io_return_def execShell_def
        logWarn_def logInfo_def emit_def failed_def
      split: option.splits sum.splits prod.splits if_splits)

text \<open>An instance: probe enabled and configured, check and probe both exit 0.\<close>

theorem probe_gating_witness:
  "check (exampleRuntime (flakyShell 1)) exampleConfig ''42''
       (countingWorld\<lparr>now := 70000, extern := 1\<rparr>) =
     (Inr True, countingWorld\<lparr>now := 70000, extern := 3\<rparr>,
      [Exec Check ''/srv'' ''check'' \<lparr>code = Some 0, stdout = [], stderr = ''down''\<rparr>,
       LogInfo ''Agent probe: probe'',
       Exec Probe ''/srv'' ''probe'' \<lparr>code = Some 0, stdout = [], stderr = ''down''\<rparr>]) \<and>
     (\<exists>cmd res rest.
        buildCommand (exampleRuntime (flakyShell 1)) (checkCommand (hbOf exampleConfig))
          exampleConfig [(''id'', Some ''42'')] (countingWorld\<lparr>now := 70000, extern := 1\<rparr>)
          = Inr cmd
        \<and> [Exec Check ''/srv'' ''check'' \<lparr>code = Some 0, stdout = [], stderr = ''down''\<rparr>,
            LogInfo ''Agent probe: probe'',
            Exec Probe ''/srv'' ''probe'' \<lparr>code = Some 0, stdout = [], stderr = ''down''\<rparr>]
           = Exec Check (CWD (exampleRuntime (flakyShell 1))) cmd res # rest
        \<and> Check \<notin> set (execRoles rest)
        \<and> (Probe \<in> set (execRoles rest) \<longrightarrow>
              code res = Some 0 \<and> agentProbeEnabled exampleConfig)
        \<and> (True \<longleftrightarrow>
             code res = Some 0 \<and>
             (agentProbeEnabled exampleConfig \<and> truthy (agentProbeCommand exampleConfig) \<longrightarrow>
                (\<exists>pcmd pres. Exec Probe (CWD (exampleRuntime (flakyShell 1))) pcmd pres \<in> set rest
                   \<and> code pres = Some 0)))
        \<and> (code res = Some 0 \<and> agentProbeEnabled exampleConfig
              \<and> \<not> truthy (agentProbeCommand exampleConfig) \<longrightarrow>
             True \<and>
             rest = [LogWarn ''agentProbe enabled but command not configured; skipping probe.'']))"
  by (rule conjI, rule flaky_check_2, rule probe_gating [OF flaky_check_2])


text \<open>C4: when validation of the managed copy fails with the schema report, push
  fails with that same report, returns the world as it was (so the live file, like every
  other file, keeps its content) and produces no event: the copy onto the live file, the
  log line and the commit sequence are never reached.\<close>

theorem push_invalid_leaves_live:
  assumes "validateConfig rt cfg w = Inl (Error (''Schema validation failed:'' @ rest))"
  shows "syncPush rt cfg w = (Inl (Error (''Schema validation failed:'' @ rest)), w, [])"
proof -
  from validateConfig_schema_error_paths [OF assms] obtain p f where
    "paths cfg = Some p" "resolvePathWithBase rt (repoConfig p) (configDirOf rt cfg) = Some f"
    by blast
  with assms show ?thesis
    by (simp add: syncPush_def io_bind_def io_read_def Let_def)
qed

text \<open>An instance: a managed copy that the validator rejects with two errors.\<close>

theorem push_invalid_leaves_live_witness:
  "validateConfig quietRuntime exampleConfig (syncWorld ''{bad}'') =
     Inl (Error (''Schema validation failed:'' @ [CHR 0x0A] @
       ''- /gateway/port must be integer'' @ [CHR 0x0A] @
       ''- #/required must have required property agents'')) \<and>
   syncPush quietRuntime exampleConfig (syncWorld ''{bad}'') =
     (Inl (Error (''Schema validation failed:'' @ [CHR 0x0A] @
       ''- /gateway/port must be integer'' @ [CHR 0x0A] @
       ''- #/required must have required property agents'')), syncWorld ''{bad}'', [])"
proof -
  have v: "validateConfig quietRuntime exampleConfig (syncWorld ''{bad}'') =
     Inl (Error (''Schema validation failed:'' @ ([CHR 0x0A] @
       ''- /gateway/port must be integer'' @ [CHR 0x0A] @
       ''- #/required must have required property agents'')))"
    by (simp add: quietRuntime_def example_validate_bad exampleReport_def)
  from push_invalid_leaves_live [OF v] v show ?thesis by simp
qed







text \<open>C6 does not hold of the program: \<open>gitCommitIfChanged\<close> means to commit when the
  managed file is listed as changed, and tests \<open>line.includes(file)\<close>, which a status
  line of another file satisfies when its name contains the managed file's name. Here
  the managed copy is valid and unchanged, \<open>openclaw.json.bak\<close> is staged beside it and
  the status names only that file: the push validates, writes the live file, and then
  runs \<open>git add\<close> and \<open>git commit\<close>, although no status line is the entry of
  \<open>openclaw.json\<close>.\<close>

theorem push_commits_for_sibling_file:
  "fst (syncPush pushRuntime exampleConfig (syncWorld ''{schema}'')) = Inr () \<and>
   snd (snd (syncPush pushRuntime exampleConfig (syncWorld ''{schema}''))) =
     [LogInfo ''Pushed repo config -> live: /home/op/.openclaw/openclaw.json'',
      Exec Git ''/srv/config'' ''git status --porcelain''
        \<lparr>code = Some 0, stdout = ''A  openclaw.json.bak'' @ [CHR 0x0A], stderr = []\<rparr>,
      Exec Git ''/srv/config'' (''git add '' @ [CHR 0x22] @ ''openclaw.json'' @ [CHR 0x22])
        \<lparr>code = Some 0, stdout = [], stderr = []\<rparr>,
      Exec Git ''/srv/config''
        (''git commit -m '' @ [CHR 0x22] @ ''sync push 2026-01-01T00:00:00.000Z'' @ [CHR 0x22])
        \<lparr>code = Some 0, stdout = [], stderr = []\<rparr>] \<and>
   \<not> reportsFileChanged_spec (''A  openclaw.json.bak'' @ [CHR 0x0A]) ''openclaw.json''"
proof -
  have "\<not> reportsFileChanged_spec (''A  openclaw.json.bak'' @ [CHR 0x0A]) ''openclaw.json''"
    by (simp add: reportsFileChanged_spec_def statusLines_def)
  with push_sibling_events show ?thesis by simp
qed


text \<open>C7 does not hold of the program: \<open>formatCmd\<close> replaces one variable after the
  other with \<open>replaceAll\<close>. A value is read as a replacement pattern, so \<open>$$\<close> in it
  becomes one dollar sign; a value that holds a later placeholder is substituted again;
  and a managed-config path that is not configured is rendered \<open>undefined\<close>, where the
  variables beside it (\<open>target\<close>, \<open>agentId\<close>, \<open>sessionId\<close>, \<open>sessionKey\<close>) fall
  back to the empty string. The first line of each pair below is what the one-pass
  substitution of the specification gives.\<close>

theorem substitution_misses_value:
  "fillTemplate_spec [(''sessionKey'', Some ''agent:main:$$'')] [Lit ''probe '', Hole ''sessionKey'']
     = ''probe agent:main:$$'' \<and>
   formatCmd (renderTemplate [Lit ''probe '', Hole ''sessionKey''])
     [(''sessionKey'', Some ''agent:main:$$'')] = ''probe agent:main:$'' \<and>
   fillTemplate_spec [(''agentId'', Some ''{id}''), (''id'', Some ''42'')] [Lit ''say '', Hole ''agentId'']
     = ''say {id}'' \<and>
   formatCmd (renderTemplate [Lit ''say '', Hole ''agentId''])
     [(''agentId'', Some ''{id}''), (''id'', Some ''42'')] = ''say 42'' \<and>
   renderTemplate [Lit ''cat '', Hole ''repoConfig''] = ''cat {repoConfig}'' \<and>
   buildCommand quietRuntime (Some (renderTemplate [Lit ''cat '', Hole ''repoConfig'']))
     (exampleConfig\<lparr>paths := Some (examplePaths\<lparr>repoConfig := None\<rparr>)\<rparr>)
     [(''id'', Some ''42'')] exampleWorld = Inr ''cat undefined''"
  by (simp add: fillTemplate_spec_def renderTemplate_def String_def replaceAll_def
      replaceScan.simps startsWith_def buildCommand_def baseVars_def Let_def
      resolvePathWithBase_def examplePaths_def exampleConfig_def expandHome_def
      quietRuntime_def exampleRuntime_sel readHealthCache_def exampleWorld_def nullish_def)


text \<open>C8: after any sequence of timer ticks and cycle settlements at most one cycle is
  in progress, and one is in progress exactly when \<open>running\<close> is set; a tick that
  fires while \<open>running\<close> is set changes nothing (the function \<open>tick\<close> returns at
  once, the world unchanged and no event produced) and leaves nothing behind to run
  later: the settling of a cycle begins no cycle, and cycles begin only at ticks.\<close>

theorem one_cycle_at_a_time:
  "inflight (loopRun evs) \<le> 1 \<and>
   (running (loopRun evs) \<longleftrightarrow> inflight (loopRun evs) = 1) \<and>
   (running (loopRun evs) \<longrightarrow>
      loopStep (loopRun evs) TickFired = loopRun evs \<and>
      tick rt cfg idv (loopRun evs) w = ((Inr (), w, []), loopRun evs)) \<and>
   begun (loopStep (loopRun evs) CycleSettled) = begun (loopRun evs) \<and>
   begun (loopRun evs) \<le> length (filter (\<lambda>e. e = TickFired) evs)"
  using loopRun_invariant [of evs]
  by (auto simp: tickEnter_def tickLeave_def tick_def split: if_splits)

text \<open>An instance: the second and the fifth tick fall into a running cycle.\<close>

theorem one_cycle_at_a_time_witness:
  "loopRun [TickFired, TickFired, CycleSettled, TickFired, TickFired]
     = \<lparr>running = True, inflight = 1, begun = 2\<rparr> \<and>
   running (loopRun [TickFired, TickFired, CycleSettled, TickFired, TickFired]) \<and>
   loopStep (loopRun [TickFired, TickFired, CycleSettled, TickFired, TickFired]) TickFired
     = loopRun [TickFired, TickFired, CycleSettled, TickFired, TickFired] \<and>
   tick quietRuntime exampleConfig ''42''
       (loopRun [TickFired, TickFired, CycleSettled, TickFired, TickFired]) exampleWorld
     = ((Inr (), exampleWorld, []), loopRun [TickFired, TickFired, CycleSettled, TickFired, TickFired])"
proof -
  let ?evs = "[TickFired, TickFired, CycleSettled, TickFired, TickFired]"
  have v: "loopRun ?evs = \<lparr>running = True, inflight = 1, begun = 2\<rparr>"
    by (simp add: loopRun_def tickEnter_def tickLeave_def)
  then have r: "running (loopRun ?evs)" by simp
  from one_cycle_at_a_time [of ?evs quietRuntime exampleConfig "''42''" exampleWorld,
      THEN conjunct2, THEN conjunct2, THEN conjunct1, rule_format, OF r] v r
  show ?thesis by blast
qed



text \<open>C9 does not hold of the heartbeat loop: \<open>tick\<close> has \<open>try ... finally\<close> and no
  \<open>catch\<close>, so an error thrown in the first cycle reaches the handler of \<open>main\<close>,
  which logs it and exits with code 1, and the interval is never set. The watcher's timer
  does catch: on the same configuration it logs the error and returns. Here the
  configuration has a check command and no \<open>paths\<close> object, so building the check
  command throws after the first wait.\<close>

theorem heartbeat_error_exits_process:
  "mainHeartbeat quietRuntime (exampleConfig\<lparr>paths := None\<rparr>) ''42'' exampleWorld =
     (Exited 1, exampleWorld\<lparr>now := 30000\<rparr>,
      [Sleep 30000, LogError ''Cannot read properties of undefined (reading repoConfig)'']) \<and>
   watchTimer quietRuntime (exampleConfig\<lparr>paths := None\<rparr>) exampleWorld =
     (Inr (), exampleWorld,
      [LogError ''Cannot read properties of undefined (reading repoConfig)''])"
proof -
  let ?cfg = "exampleConfig\<lparr>paths := None\<rparr>"
  have hb: "hbOf ?cfg = hbOf exampleConfig" by (simp add: hbOf_def)
  have ws: "waitSecondsOf ?cfg = [30, 40, 50]"
    by (simp add: waitSecondsOf_def hb)
  have c: "check quietRuntime ?cfg ''42'' (exampleWorld\<lparr>now := 30000\<rparr>) =
      (Inl (TypeError ''Cannot read properties of undefined (reading repoConfig)''),
       exampleWorld\<lparr>now := 30000\<rparr>, [])"
    by (simp add: check_def io_apply io_bind_def buildCommand_def)
  have el: "elapse quietRuntime 30000 exampleWorld = exampleWorld\<lparr>now := 30000\<rparr>"
    by (simp add: quietRuntime_def exampleRuntime_sel exampleWorld_def)
  have a: "attempts quietRuntime ?cfg ''42'' 0 exampleWorld =
      (Inl (TypeError ''Cannot read properties of undefined (reading repoConfig)''),
       exampleWorld\<lparr>now := 30000\<rparr>, [Sleep 30000])"
    by (subst attempts.simps) (simp add: ws io_apply io_bind_def el c)
  have r: "runHeartbeatOnce quietRuntime ?cfg ''42'' exampleWorld =
      (Inl (TypeError ''Cannot read properties of undefined (reading repoConfig)''),
       exampleWorld\<lparr>now := 30000\<rparr>, [Sleep 30000])"
    by (simp add: runHeartbeatOnce_afterLoop hb truthy_def io_apply io_bind_def a)
  have m: "mainHeartbeat quietRuntime ?cfg ''42'' exampleWorld =
     (Exited 1, exampleWorld\<lparr>now := 30000\<rparr>,
      [Sleep 30000, LogError ''Cannot read properties of undefined (reading repoConfig)''])"
    by (simp add: mainHeartbeat_def runHeartbeatLoop_def tick_def tickEnter_def r errorText_def)
  have t: "watchTimer quietRuntime ?cfg exampleWorld =
     (Inr (), exampleWorld,
      [LogError ''Cannot read properties of undefined (reading repoConfig)''])"
    by (simp add: watchTimer_def io_catch_def io_apply io_bind_def syncPush_def errorText_def)
  from m t show ?thesis by simp
qed


text \<open>C10: with no check command configured the cycle only logs a warning: the world is
  unchanged (no sleep, no command) and the warning is the cycle's only event.\<close>

theorem no_check_command_is_noop:
  "\<not> truthy (checkCommand (hbOf cfg)) \<Longrightarrow>
   runHeartbeatOnce rt cfg idv w =
     (Inr Skipped, w, [LogWarn ''Heartbeat checkCommand not configured. Skipping heartbeat.''])"
  by (simp add: runHeartbeatOnce_def io_then_def io_bind_def io_return_def logWarn_def emit_def)

theorem no_check_command_is_noop_witness:
  "\<not> truthy (checkCommand (hbOf (exampleConfig\<lparr>heartbeat := None\<rparr>))) \<and>
   runHeartbeatOnce (exampleRuntime (tableShell (\<lambda>c. 0))) (exampleConfig\<lparr>heartbeat := None\<rparr>)
       ''42'' exampleWorld =
     (Inr Skipped, exampleWorld,
      [LogWarn ''Heartbeat checkCommand not configured. Skipping heartbeat.''])"
proof -
  have h: "\<not> truthy (checkCommand (hbOf (exampleConfig\<lparr>heartbeat := None\<rparr>)))"
    by (simp add: hbOf_def emptyHeartbeat_def truthy_def)
  show ?thesis using h no_check_command_is_noop [OF h] by simp
qed

end
